theory Spec2Isabelle
  imports Main
begin

section \<open>The shared files\<close>

text \<open>
  The processes of one workspace coordinate through two files: the lock file
  (\<^verbatim>\<open>.pnpm-injected-sync.lock\<close>, the JSON object \<^verbatim>\<open>{pid, timestamp}\<close>) and the
  client file (the lock file's path with \<^verbatim>\<open>.clients\<close> appended, a JSON array of
  process identifiers). A file's text is represented by what \<^verbatim>\<open>JSON.parse\<close> makes of
  it: the value the program writes there, or garbage, any text that \<^verbatim>\<open>JSON.parse\<close>
  rejects with a SyntaxError (a half-written file, for one). Lock files and client files
  are kept apart, each with the content the program writes to it; text that parses to a
  value of another shape is not a content of this model. Process identifiers and
  timestamps are integers.

  Every successful write and unlink is appended to a journal, so that "this call wrote
  nothing and deleted nothing" can be stated even where the write would store what the
  file already holds.

  A read or an unlink fails only with ENOENT, on a missing file, and a plain write does
  not fail. The exclusive write behind \<^verbatim>\<open>acquireLock\<close> fails with EEXIST on an
  existing file, and otherwise with the error code \<open>wx_fault\<close> when the environment has
  one (EACCES on a directory that cannot be written, for one).

  Two more answers of the environment decide whether a watcher can start:
  \<open>manifest_fault\<close> is the error code \<^verbatim>\<open>readModulesManifest\<close> throws with, if it
  throws, and \<open>watch_fault dir\<close> the error code \<^verbatim>\<open>fs.watch\<close> throws with for the
  directory \<open>dir\<close> (ENOENT for a directory that is not there,
  ERR_FEATURE_UNAVAILABLE_ON_PLATFORM where recursive watching is not supported).
\<close>

type_synonym path = string

datatype lock_content = LockGarbage | LockRecord int int

datatype client_content = ClientGarbage | ClientList "int list"

datatype fs_op = Wrote path | Unlinked path

record filesystem =
  lockFiles :: "path \<rightharpoonup> lock_content"
  clientFiles :: "path \<rightharpoonup> client_content"
  journal :: "fs_op list"
  wx_fault :: "string option"
  manifest_fault :: "string option"
  watch_fault :: "path \<Rightarrow> string option"

text \<open>
  A JavaScript exception: a system error carries \<^verbatim>\<open>err.code\<close>; a SyntaxError and a
  plain \<^verbatim>\<open>Error(message)\<close> have no code.
\<close>

datatype error = SystemError string | SyntaxError | Error string

fun err_code :: "error \<Rightarrow> string option" where
  "err_code (SystemError c) = Some c"
| "err_code SyntaxError = None"
| "err_code (Error m) = None"

definition readFile_lock :: "filesystem \<Rightarrow> path \<Rightarrow> error + lock_content" where
  "readFile_lock fs p =
     (case lockFiles fs p of None \<Rightarrow> Inl (SystemError ''ENOENT'') | Some c \<Rightarrow> Inr c)"

definition readFile_clients :: "filesystem \<Rightarrow> path \<Rightarrow> error + client_content" where
  "readFile_clients fs p =
     (case clientFiles fs p of None \<Rightarrow> Inl (SystemError ''ENOENT'') | Some c \<Rightarrow> Inr c)"

fun JSON_parse_lock :: "lock_content \<Rightarrow> error + int \<times> int" where
  "JSON_parse_lock LockGarbage = Inl SyntaxError"
| "JSON_parse_lock (LockRecord p t) = Inr (p, t)"

fun JSON_parse_clients :: "client_content \<Rightarrow> error + int list" where
  "JSON_parse_clients ClientGarbage = Inl SyntaxError"
| "JSON_parse_clients (ClientList cs) = Inr cs"

text \<open>\<^verbatim>\<open>fs.promises.writeFile(lockFile, ..., { flag: 'wx' })\<close>: create, fail if the file exists.\<close>

definition writeFile_wx :: "filesystem \<Rightarrow> path \<Rightarrow> lock_content \<Rightarrow> error + filesystem" where
  "writeFile_wx fs p c =
     (if lockFiles fs p \<noteq> None then Inl (SystemError ''EEXIST'')
      else case wx_fault fs of
             Some e \<Rightarrow> Inl (SystemError e)
           | None \<Rightarrow> Inr (fs\<lparr>lockFiles := (lockFiles fs)(p \<mapsto> c),
                                journal := journal fs @ [Wrote p]\<rparr>))"

text \<open>\<^verbatim>\<open>fs.promises.writeFile(clientFile, JSON.stringify(clients))\<close>: create or replace.\<close>

definition writeFile_clients :: "filesystem \<Rightarrow> path \<Rightarrow> int list \<Rightarrow> filesystem" where
  "writeFile_clients fs p cs =
     fs\<lparr>clientFiles := (clientFiles fs)(p \<mapsto> ClientList cs), journal := journal fs @ [Wrote p]\<rparr>"

definition unlink_lock :: "filesystem \<Rightarrow> path \<Rightarrow> error + filesystem" where
  "unlink_lock fs p =
     (if lockFiles fs p = None then Inl (SystemError ''ENOENT'')
      else Inr (fs\<lparr>lockFiles := (lockFiles fs)(p := None), journal := journal fs @ [Unlinked p]\<rparr>))"

definition unlink_clients :: "filesystem \<Rightarrow> path \<Rightarrow> error + filesystem" where
  "unlink_clients fs p =
     (if clientFiles fs p = None then Inl (SystemError ''ENOENT'')
      else Inr (fs\<lparr>clientFiles := (clientFiles fs)(p := None), journal := journal fs @ [Unlinked p]\<rparr>))"

text \<open>\<^verbatim>\<open>try { await fs.promises.unlink(clientFile); } catch { }\<close>\<close>

definition try_unlink_clients :: "filesystem \<Rightarrow> path \<Rightarrow> filesystem" where
  "try_unlink_clients fs p = (case unlink_clients fs p of Inl e \<Rightarrow> fs | Inr fs' \<Rightarrow> fs')"

text \<open>\<^verbatim>\<open>const clientFile = `${lockFile}.clients`\<close>\<close>

definition clientFile :: "path \<Rightarrow> path" where
  "clientFile lockFile = lockFile @ ''.clients''"

section \<open>The lock\<close>

text \<open>
  \<^verbatim>\<open>acquireLock(lockFile, pid)\<close>; \<open>now\<close> is what \<^verbatim>\<open>Date.now()\<close> returns. The result
  is the returned boolean, or the exception thrown.
\<close>

definition acquireLock :: "filesystem \<Rightarrow> path \<Rightarrow> int \<Rightarrow> int \<Rightarrow> (error + bool) \<times> filesystem" where
  "acquireLock fs lockFile pid now =
     (case writeFile_wx fs lockFile (LockRecord pid now) of
        Inr fs' \<Rightarrow> (Inr True, fs')
      | Inl err \<Rightarrow>
          if err_code err = Some ''EEXIST'' then (Inr False, fs) else (Inl err, fs))"

text \<open>
  A history of the lock: processes acquire, and the holder releases by unlinking the
  file inside \<^verbatim>\<open>try { ... } catch { }\<close>, as every teardown path of the program does.
  The exclusive create is the one atomic step, so attempts made at the same time take
  effect in some order, one after the other.
\<close>

datatype lock_op = Acquire int int | Release

definition release :: "filesystem \<Rightarrow> path \<Rightarrow> filesystem" where
  "release fs lockFile = (case unlink_lock fs lockFile of Inl e \<Rightarrow> fs | Inr fs' \<Rightarrow> fs')"

fun lock_step :: "path \<Rightarrow> filesystem \<Rightarrow> lock_op \<Rightarrow> (error + bool) option \<times> filesystem" where
  "lock_step lockFile fs (Acquire pid now) =
     (case acquireLock fs lockFile pid now of (r, fs') \<Rightarrow> (Some r, fs'))"
| "lock_step lockFile fs Release = (None, release fs lockFile)"

fun lock_run :: "path \<Rightarrow> filesystem \<Rightarrow> lock_op list \<Rightarrow> (error + bool) option list \<times> filesystem" where
  "lock_run lockFile fs [] = ([], fs)"
| "lock_run lockFile fs (x # xs) =
     (case lock_step lockFile fs x of (r, fs') \<Rightarrow>
        (case lock_run lockFile fs' xs of (rs, fs'') \<Rightarrow> (r # rs, fs'')))"

definition empty_fs :: filesystem where
  "empty_fs =
     \<lparr>lockFiles = Map.empty, clientFiles = Map.empty, journal = [], wx_fault = None,
      manifest_fault = None, watch_fault = (\<lambda>dir. None)\<rparr>"

section \<open>The liveness probe\<close>

text \<open>
  \<^verbatim>\<open>isProcessRunning(pid)\<close>: \<^verbatim>\<open>process.kill(pid, 0)\<close> inside try/catch. The parameter
  \<open>kill0\<close> is the operating system's answer: whether \<^verbatim>\<open>process.kill(pid, 0)\<close>
  returns without throwing.
\<close>

definition isProcessRunning :: "(int \<Rightarrow> bool) \<Rightarrow> int \<Rightarrow> bool" where
  "isProcessRunning kill0 pid = (if kill0 pid then True else False)"

section \<open>Promotion\<close>

text \<open>The \<^verbatim>\<open>catch (err)\<close> block of \<^verbatim>\<open>tryPromoteToWatcher\<close>.\<close>

definition tryPromote_catch ::
  "error \<Rightarrow> filesystem \<Rightarrow> path \<Rightarrow> int \<Rightarrow> int \<Rightarrow> (error + bool) \<times> filesystem" where
  "tryPromote_catch err fs lockFile pid now =
     (if err_code err = Some ''ENOENT'' then acquireLock fs lockFile pid now
      else (Inr False, fs))"

definition tryPromoteToWatcher ::
  "(int \<Rightarrow> bool) \<Rightarrow> filesystem \<Rightarrow> path \<Rightarrow> int \<Rightarrow> int \<Rightarrow> (error + bool) \<times> filesystem" where
  "tryPromoteToWatcher kill0 fs lockFile pid now =
     (case readFile_lock fs lockFile of
        Inl err \<Rightarrow> tryPromote_catch err fs lockFile pid now
      | Inr lockData \<Rightarrow>
          (case JSON_parse_lock lockData of
             Inl err \<Rightarrow> tryPromote_catch err fs lockFile pid now
           | Inr (watcherPid, ts) \<Rightarrow>
               if isProcessRunning kill0 watcherPid then (Inr False, fs)
               else (case unlink_lock fs lockFile of
                       Inl err \<Rightarrow> tryPromote_catch err fs lockFile pid now
                     | Inr fs1 \<Rightarrow>
                         (case acquireLock fs1 lockFile pid now of
                            (Inl err, fs2) \<Rightarrow> tryPromote_catch err fs2 lockFile pid now
                          | (Inr b, fs2) \<Rightarrow> (Inr b, fs2)))))"

text \<open>
  The promotion check of a client runs \<^verbatim>\<open>tryPromoteToWatcher\<close> every 2000 ms. This is
  \<open>n\<close> ticks in a row with nothing else touching the files, stopping at the first tick
  that promotes or throws; the result is that tick's, or \<open>Inr False\<close> when none did.
\<close>

fun promotion_ticks ::
  "nat \<Rightarrow> (int \<Rightarrow> bool) \<Rightarrow> filesystem \<Rightarrow> path \<Rightarrow> int \<Rightarrow> int \<Rightarrow> (error + bool) \<times> filesystem" where
  "promotion_ticks 0 kill0 fs lockFile pid now = (Inr False, fs)"
| "promotion_ticks (Suc n) kill0 fs lockFile pid now =
     (case tryPromoteToWatcher kill0 fs lockFile pid now of
        (Inr False, fs') \<Rightarrow> promotion_ticks n kill0 fs' lockFile pid (now + 2000)
      | (r, fs') \<Rightarrow> (r, fs'))"

section \<open>The client registry\<close>

text \<open>
  The list every registry function starts from: the parsed client file, or the initial
  \<^verbatim>\<open>[]\<close> when reading or parsing throws. \<open>None\<close> is the exception.
\<close>

definition readClients :: "filesystem \<Rightarrow> path \<Rightarrow> int list option" where
  "readClients fs p =
     (case readFile_clients fs p of
        Inl err \<Rightarrow> None
      | Inr data \<Rightarrow> (case JSON_parse_clients data of Inl err \<Rightarrow> None | Inr cs \<Rightarrow> Some cs))"

definition registerClient :: "filesystem \<Rightarrow> path \<Rightarrow> int \<Rightarrow> filesystem" where
  "registerClient fs lockFile pid =
     (let clients = (case readClients fs (clientFile lockFile) of None \<Rightarrow> [] | Some cs \<Rightarrow> cs)
      in if pid \<notin> set clients
         then writeFile_clients fs (clientFile lockFile) (clients @ [pid])
         else fs)"

definition unregisterClient :: "filesystem \<Rightarrow> path \<Rightarrow> int \<Rightarrow> int list \<times> filesystem" where
  "unregisterClient fs lockFile pid =
     (case readClients fs (clientFile lockFile) of
        None \<Rightarrow> ([], fs)
      | Some cs \<Rightarrow>
          (let clients = filter (\<lambda>p. p \<noteq> pid) cs
           in if length clients > 0
              then (clients, writeFile_clients fs (clientFile lockFile) clients)
              else (clients, try_unlink_clients fs (clientFile lockFile))))"

definition cleanupStaleClients :: "(int \<Rightarrow> bool) \<Rightarrow> filesystem \<Rightarrow> path \<Rightarrow> int list \<times> filesystem" where
  "cleanupStaleClients kill0 fs lockFile =
     (case readClients fs (clientFile lockFile) of
        None \<Rightarrow> ([], fs)
      | Some clients \<Rightarrow>
          (let aliveClients = filter (isProcessRunning kill0) clients
           in if length aliveClients \<noteq> length clients
              then (if length aliveClients > 0
                    then (aliveClients, writeFile_clients fs (clientFile lockFile) aliveClients)
                    else (aliveClients, try_unlink_clients fs (clientFile lockFile)))
              else (aliveClients, fs)))"

text \<open>The members of the registry as the functions above see them.\<close>

definition members :: "filesystem \<Rightarrow> path \<Rightarrow> int list" where
  "members fs lockFile = (case readClients fs (clientFile lockFile) of None \<Rightarrow> [] | Some cs \<Rightarrow> cs)"

section \<open>The disable flag\<close>

text \<open>
  \<^verbatim>\<open>String.prototype.toLowerCase\<close> on the ASCII letters. No character outside ASCII
  lower-cases to a letter of \<^verbatim>\<open>true\<close>, \<^verbatim>\<open>yes\<close> or \<^verbatim>\<open>on\<close>, so the comparison below
  is not affected by the rest of Unicode.
\<close>

definition lower_char :: "char \<Rightarrow> char" where
  "lower_char c =
     (if 65 \<le> (of_char c :: nat) \<and> (of_char c :: nat) \<le> 90
      then char_of ((of_char c :: nat) + 32) else c)"

definition toLowerCase :: "string \<Rightarrow> string" where
  "toLowerCase s = map lower_char s"

text \<open>
  \<^verbatim>\<open>isSyncDisabled()\<close>; \<open>env\<close> is \<^verbatim>\<open>process.env.PNPM_INJECTED_SYNC_DISABLED\<close>, \<open>None\<close>
  when the variable is not set. \<^verbatim>\<open>!value\<close> holds of undefined and of the empty string.
\<close>

definition isSyncDisabled :: "string option \<Rightarrow> bool" where
  "isSyncDisabled env =
     (case env of
        None \<Rightarrow> False
      | Some v \<Rightarrow>
          if v = [] then False
          else (let normalized = toLowerCase v
                in normalized = ''true'' \<or> normalized = ''1'' \<or> normalized = ''yes''
                   \<or> normalized = ''on''))"

section \<open>The watcher's state and the debounce timers\<close>

text \<open>
  The \<^verbatim>\<open>state\<close> object of a watcher. \<open>watchers\<close> is the Map from a directory to its
  \<^verbatim>\<open>fs.watch\<close> handle, each with whether it is still open. \<open>debounceTimers\<close> holds the
  pending timers in the order they were created, which is the order the runtime fires
  them in (every one of them waits 100 ms): the timer's key, the time it is due (ms) and
  the directory its callback synchronizes. A cleared timer is dropped, since the program
  never looks at it again. \<open>synced\<close> records the effect of \<^verbatim>\<open>syncDeps\<close>: the directories
  \<^verbatim>\<open>syncInjectedDeps\<close> was called for, in call order.
\<close>

record watch_state =
  watchers :: "(path \<times> bool) list"
  debounceTimers :: "(string \<times> nat \<times> path) list"
  state_clients :: "int list"
  state_lockFile :: path
  checkInterval :: bool
  synced :: "path list"

definition syncDeps :: "string option \<Rightarrow> path \<Rightarrow> watch_state \<Rightarrow> watch_state" where
  "syncDeps env pkgDir st =
     (if isSyncDisabled env then st else st\<lparr>synced := synced st @ [pkgDir]\<rparr>)"

text \<open>
  \<^verbatim>\<open>setupWatcher\<close>: \<^verbatim>\<open>fs.watch\<close> throws at once when it cannot watch the directory,
  and the exception leaves \<^verbatim>\<open>setupWatcher\<close>.
\<close>

definition setupWatcher :: "filesystem \<Rightarrow> path \<Rightarrow> watch_state \<Rightarrow> error + watch_state" where
  "setupWatcher fs pkgDir st =
     (if pkgDir \<in> fst ` set (watchers st) then Inr st
      else case watch_fault fs pkgDir of
             Some e \<Rightarrow> Inl (SystemError e)
           | None \<Rightarrow> Inr (st\<lparr>watchers := watchers st @ [(pkgDir, True)]\<rparr>))"

text \<open>
  \<^verbatim>\<open>for (const pkgDir of injectedDepsDirs) { setupWatcher(pkgDir, workspaceDir, state); }\<close>:
  the loop ends at the first directory that throws.
\<close>

fun setupWatchers :: "filesystem \<Rightarrow> path list \<Rightarrow> watch_state \<Rightarrow> error + watch_state" where
  "setupWatchers fs [] st = Inr st"
| "setupWatchers fs (pkgDir # dirs) st =
     (case setupWatcher fs pkgDir st of
        Inl err \<Rightarrow> Inl err
      | Inr st' \<Rightarrow> setupWatchers fs dirs st')"

text \<open>\<^verbatim>\<open>const timerId = `${pkgDir}:${filename}`\<close>\<close>

definition timerId :: "path \<Rightarrow> string \<Rightarrow> string" where
  "timerId pkgDir filename = pkgDir @ '':'' @ filename"

text \<open>
  The callback \<^verbatim>\<open>fs.watch\<close> is given for \<open>pkgDir\<close>, called at time \<open>now\<close> with the
  changed entry's name (\<open>None\<close> when the platform reports none).
\<close>

definition on_change :: "nat \<Rightarrow> path \<Rightarrow> string option \<Rightarrow> watch_state \<Rightarrow> watch_state" where
  "on_change now pkgDir filename st =
     (case filename of
        None \<Rightarrow> st
      | Some f \<Rightarrow>
          if f = [] then st
          else st\<lparr>debounceTimers :=
                    filter (\<lambda>(k, d, p). k \<noteq> timerId pkgDir f) (debounceTimers st)
                    @ [(timerId pkgDir f, now + 100, pkgDir)]\<rparr>)"

text \<open>
  The runtime at time \<open>now\<close>: every pending timer that is due fires; its callback
  deletes it from the Map and calls \<^verbatim>\<open>syncDeps(pkgDir, workspaceDir)\<close>.
\<close>

definition fire_due :: "string option \<Rightarrow> nat \<Rightarrow> watch_state \<Rightarrow> watch_state" where
  "fire_due env now st =
     foldl (\<lambda>s (k, d, p). syncDeps env p s)
       (st\<lparr>debounceTimers := filter (\<lambda>(k, d, p). \<not> d \<le> now) (debounceTimers st)\<rparr>)
       (filter (\<lambda>(k, d, p). d \<le> now) (debounceTimers st))"

text \<open>
  A run of the watchers over change events \<open>(time, directory, entry)\<close>, given in the
  order they happen: before an event is delivered the timers due by then fire; the event
  reaches the callback of its directory's watcher if that watcher is open.
\<close>

fun watch_run :: "string option \<Rightarrow> watch_state \<Rightarrow> (nat \<times> path \<times> string option) list \<Rightarrow> watch_state" where
  "watch_run env st [] = st"
| "watch_run env st ((t, pkgDir, filename) # es) =
     (let st1 = fire_due env t st
      in watch_run env
           (if (pkgDir, True) \<in> set (watchers st1) then on_change t pkgDir filename st1 else st1)
           es)"

text \<open>The run, and then the time passing until \<open>t_end\<close>.\<close>

definition watch_until :: "string option \<Rightarrow> watch_state \<Rightarrow> (nat \<times> path \<times> string option) list \<Rightarrow> nat \<Rightarrow> watch_state" where
  "watch_until env st es t_end = fire_due env t_end (watch_run env st es)"

text \<open>
  The teardown block that the reaper, the exit handler and the signal handler share: stop
  the reaper, clear every debounce timer, close every watcher.
\<close>

definition close_state :: "watch_state \<Rightarrow> watch_state" where
  "close_state st =
     st\<lparr>checkInterval := False, debounceTimers := [],
        watchers := map (\<lambda>(d, opened). (d, False)) (watchers st)\<rparr>"

text \<open>
  \<^verbatim>\<open>try { await fs.promises.unlink(lockFile); await fs.promises.unlink(clientFile); } catch { }\<close>
\<close>

definition unlink_both :: "filesystem \<Rightarrow> path \<Rightarrow> filesystem" where
  "unlink_both fs lockFile =
     (case unlink_lock fs lockFile of
        Inl e \<Rightarrow> fs
      | Inr fs1 \<Rightarrow>
          (case unlink_clients fs1 (clientFile lockFile) of Inl e \<Rightarrow> fs1 | Inr fs2 \<Rightarrow> fs2))"

section \<open>The watcher runtime\<close>

text \<open>
  \<^verbatim>\<open>getInjectedDepsDirs(workspaceDir)\<close>; \<open>dirs\<close> are the directories the manifest of the
  workspace lists.
\<close>

definition getInjectedDepsDirs :: "filesystem \<Rightarrow> path list \<Rightarrow> error + path list" where
  "getInjectedDepsDirs fs dirs =
     (case manifest_fault fs of Some e \<Rightarrow> Inl (SystemError e) | None \<Rightarrow> Inr dirs)"

text \<open>
  \<^verbatim>\<open>startWatcherMode\<close>. It throws when the manifest cannot be read, when there is no
  directory to watch (after unlinking the lock file), and when a watcher cannot be set
  up; in the last case the state object, with the watchers opened so far, is lost to the
  caller. \<^verbatim>\<open>syncDeps\<close> catches what the synchronization throws, and the write of
  \<^verbatim>\<open>registerClient\<close> is a plain write, which does not fail here. The reaper it starts
  is \<open>reaper_tick\<close> below.
\<close>

definition startWatcherMode ::
  "string option \<Rightarrow> path list \<Rightarrow> filesystem \<Rightarrow> path \<Rightarrow> int \<Rightarrow> (error + watch_state) \<times> filesystem" where
  "startWatcherMode env dirs fs lockFile pid =
     (case getInjectedDepsDirs fs dirs of
        Inl err \<Rightarrow> (Inl err, fs)
      | Inr injectedDepsDirs \<Rightarrow>
          if length injectedDepsDirs = 0
          then (case unlink_lock fs lockFile of
                  Inl err \<Rightarrow> (Inl err, fs)
                | Inr fs' \<Rightarrow> (Inl (Error ''No injected dependencies found''), fs'))
          else (let st = \<lparr>watchers = [], debounceTimers = [], state_clients = [pid],
                           state_lockFile = lockFile, checkInterval = False, synced = []\<rparr>;
                    fs1 = registerClient fs lockFile pid;
                    st1 = foldl (\<lambda>s pkgDir. syncDeps env pkgDir s) st injectedDepsDirs
                in case setupWatchers fs1 injectedDepsDirs st1 of
                     Inl err \<Rightarrow> (Inl err, fs1)
                   | Inr st2 \<Rightarrow> (Inr (st2\<lparr>checkInterval := True\<rparr>), fs1)))"

section \<open>The process supervisor\<close>

text \<open>
  The variables of one \<^verbatim>\<open>runCommand\<close> invocation that its callbacks share, and what the
  invocation has done to the outside: \<open>child\<close> is the command line it spawned,
  \<open>child_signals\<close> the signals it sent the child, \<open>forceExitTimer\<close> the pending
  5000 ms forced-exit timer with the signal it was armed for, \<open>rejected\<close> the exceptions
  that escaped a timer callback, and \<open>exitCode\<close> the argument of \<^verbatim>\<open>process.exit\<close> once
  it has been called.

  Every function and every callback below is one step: it runs from its first statement
  to its last on the files as it finds them. What other processes, or other callbacks of
  the same process, do while it awaits a file operation happens before or after it.
\<close>

datatype signal = SIGINT | SIGTERM | SIGHUP

record proc =
  proc_pid :: int
  proc_lockFile :: path
  isWatcher :: bool
  state :: "watch_state option"
  promotionCheckInterval :: bool
  childExited :: bool
  isExiting :: bool
  childExitCode :: "int option"
  child :: "string option"
  child_signals :: "signal list"
  forceExitTimer :: "signal option"
  keepAlive :: bool
  rejected :: "error list"
  exitCode :: "int option"

definition init_proc :: "int \<Rightarrow> path \<Rightarrow> proc" where
  "init_proc pid lockFile =
     \<lparr>proc_pid = pid, proc_lockFile = lockFile, isWatcher = False, state = None,
      promotionCheckInterval = False, childExited = False, isExiting = False,
      childExitCode = None, child = None, child_signals = [], forceExitTimer = None,
      keepAlive = False, rejected = [], exitCode = None\<rparr>"

text \<open>\<^verbatim>\<open>args.join(' ')\<close>\<close>

fun join_args :: "string list \<Rightarrow> string" where
  "join_args [] = []"
| "join_args [a] = a"
| "join_args (a # b # bs) = a @ '' '' @ join_args (b # bs)"

text \<open>\<^verbatim>\<open>spawn(fullCommand, [], ...)\<close> and the keep-alive interval.\<close>

definition spawn_child :: "string list \<Rightarrow> proc \<Rightarrow> proc" where
  "spawn_child args p = p\<lparr>child := Some (join_args args), keepAlive := True\<rparr>"

text \<open>
  \<^verbatim>\<open>runCommand(args)\<close> up to its return. \<open>workspaceDir\<close> is what
  \<^verbatim>\<open>findWorkspaceRoot\<close> found, \<open>dirs\<close> are the directories the manifest lists,
  \<open>pid\<close> is \<^verbatim>\<open>process.pid\<close>, and the lock file is
  \<^verbatim>\<open>path.join(workspaceDir, '.pnpm-injected-sync.lock')\<close>. Without a workspace the
  process exits with 1 before a lock file path exists. An exception of \<^verbatim>\<open>acquireLock\<close>
  is the result \<open>Inl\<close>: \<^verbatim>\<open>runCommand\<close> rejects.
\<close>

definition runCommand ::
  "string list \<Rightarrow> string option \<Rightarrow> path option \<Rightarrow> path list \<Rightarrow> filesystem \<Rightarrow> int \<Rightarrow> int
     \<Rightarrow> (error + proc) \<times> filesystem" where
  "runCommand args env workspaceDir dirs fs pid now =
     (case workspaceDir of
        None \<Rightarrow> (Inr ((init_proc pid [])\<lparr>exitCode := Some 1\<rparr>), fs)
      | Some ws \<Rightarrow>
          (let lockFile = ws @ ''/.pnpm-injected-sync.lock'';
               p = init_proc pid lockFile
           in if \<not> isSyncDisabled env
              then (case acquireLock fs lockFile pid now of
                      (Inl err, fs1) \<Rightarrow> (Inl err, fs1)
                    | (Inr acquired, fs1) \<Rightarrow>
                        (let (p1, fs2) =
                               (if acquired
                                then (case startWatcherMode env dirs fs1 lockFile pid of
                                        (Inr st, fs') \<Rightarrow> (p\<lparr>isWatcher := True, state := Some st\<rparr>, fs')
                                      | (Inl err, fs') \<Rightarrow> (p\<lparr>isWatcher := False\<rparr>, fs'))
                                else (p, fs1))
                         in if \<not> isWatcher p1
                            then (Inr (spawn_child args (p1\<lparr>promotionCheckInterval := True\<rparr>)),
                                  registerClient fs2 lockFile pid)
                            else (Inr (spawn_child args p1), fs2)))
              else (Inr (spawn_child args p), fs)))"

text \<open>The callback of the promotion check, every 2000 ms while the interval is set.\<close>

definition promotion_tick ::
  "(int \<Rightarrow> bool) \<Rightarrow> string option \<Rightarrow> path list \<Rightarrow> int \<Rightarrow> proc \<times> filesystem \<Rightarrow> proc \<times> filesystem" where
  "promotion_tick kill0 env dirs now = (\<lambda>(p, fs).
     (case tryPromoteToWatcher kill0 fs (proc_lockFile p) (proc_pid p) now of
        (Inl err, fs') \<Rightarrow> (p\<lparr>rejected := rejected p @ [err]\<rparr>, fs')
      | (Inr canPromote, fs') \<Rightarrow>
          if canPromote
          then (let p1 = p\<lparr>isWatcher := True, promotionCheckInterval := False\<rparr>
                in case startWatcherMode env dirs fs' (proc_lockFile p) (proc_pid p) of
                     (Inr st, fs'') \<Rightarrow> (p1\<lparr>state := Some st\<rparr>, fs'')
                   | (Inl err, fs'') \<Rightarrow> (p1, fs''))
          else (p, fs')))"

text \<open>
  The callback of the reaper, every 5000 ms, for the state \<^verbatim>\<open>startWatcherMode\<close> made
  (the invocation's \<open>state\<close>; without one no reaper was started).
  \<^verbatim>\<open>getChildExited()\<close> reads \<open>childExited\<close>.
\<close>

definition reaper_tick :: "(int \<Rightarrow> bool) \<Rightarrow> proc \<times> filesystem \<Rightarrow> proc \<times> filesystem" where
  "reaper_tick kill0 = (\<lambda>(p, fs).
     (case state p of
        None \<Rightarrow> (p, fs)
      | Some st \<Rightarrow>
          (case cleanupStaleClients kill0 fs (state_lockFile st) of
             (aliveClients, fs1) \<Rightarrow>
               if \<not> childExited p then (p, fs1)
               else if length aliveClients = 0
               then (p\<lparr>state := Some (close_state st), exitCode := Some 0\<rparr>,
                     unlink_both fs1 (state_lockFile st))
               else (p, fs1))))"

text \<open>\<^verbatim>\<open>code || 0\<close> for the exit code the child reported (\<open>None\<close> is \<^verbatim>\<open>null\<close>).\<close>

definition code_or_0 :: "int option \<Rightarrow> int" where
  "code_or_0 code = (case code of None \<Rightarrow> 0 | Some c \<Rightarrow> if c = 0 then 0 else c)"

text \<open>
  \<^verbatim>\<open>child.on('exit', async (code, signal) => ...)\<close>, and the second listener that stops
  the keep-alive interval.
\<close>

definition on_child_exit :: "int option \<Rightarrow> signal option \<Rightarrow> proc \<times> filesystem \<Rightarrow> proc \<times> filesystem" where
  "on_child_exit code sig = (\<lambda>(p, fs).
     (let p1 = p\<lparr>childExitCode := code, childExited := True\<rparr>
      in if isExiting p then (p1\<lparr>exitCode := Some (code_or_0 code)\<rparr>, fs)
         else (let p2 = p1\<lparr>isExiting := True, promotionCheckInterval := False, keepAlive := False\<rparr>
               in case unregisterClient fs (proc_lockFile p) (proc_pid p) of
                    (remainingClients, fs1) \<Rightarrow>
                      (case state p of
                         Some st \<Rightarrow>
                           if isWatcher p
                           then (p2\<lparr>state := Some (close_state st), exitCode := Some (code_or_0 code)\<rparr>,
                                 unlink_both fs1 (proc_lockFile p))
                           else (p2\<lparr>exitCode := Some (code_or_0 code)\<rparr>, fs1)
                       | None \<Rightarrow> (p2\<lparr>exitCode := Some (code_or_0 code)\<rparr>, fs1)))))"

text \<open>\<^verbatim>\<open>child.on('error', ...)\<close>: the child could not be spawned.\<close>

definition on_child_error :: "proc \<times> filesystem \<Rightarrow> proc \<times> filesystem" where
  "on_child_error = (\<lambda>(p, fs). (p\<lparr>exitCode := Some 1\<rparr>, fs))"

text \<open>\<^verbatim>\<open>process.on(signal, async () => ...)\<close> for SIGINT, SIGTERM and SIGHUP.\<close>

definition on_signal :: "signal \<Rightarrow> proc \<times> filesystem \<Rightarrow> proc \<times> filesystem" where
  "on_signal sig = (\<lambda>(p, fs).
     if isExiting p then (p, fs)
     else (let p1 = p\<lparr>isExiting := True, child_signals := child_signals p @ [sig],
                      promotionCheckInterval := False, forceExitTimer := Some sig\<rparr>
           in case state p of
                Some st \<Rightarrow>
                  if isWatcher p
                  then (p1\<lparr>state := Some (close_state st)\<rparr>, unlink_both fs (proc_lockFile p))
                  else (p1, snd (unregisterClient fs (proc_lockFile p) (proc_pid p)))
              | None \<Rightarrow> (p1, snd (unregisterClient fs (proc_lockFile p) (proc_pid p)))))"

definition signalExitCode :: "signal \<Rightarrow> int" where
  "signalExitCode sig = (if sig = SIGINT then 130 else if sig = SIGTERM then 143 else 129)"

text \<open>
  The forced-exit timer armed by the handler of \<open>sig\<close>:
  \<^verbatim>\<open>process.exit(childExitCode ?? signalExitCode)\<close>.
\<close>

definition on_force_exit :: "signal \<Rightarrow> proc \<times> filesystem \<Rightarrow> proc \<times> filesystem" where
  "on_force_exit sig = (\<lambda>(p, fs).
     (p\<lparr>exitCode := Some (case childExitCode p of Some c \<Rightarrow> c | None \<Rightarrow> signalExitCode sig)\<rparr>, fs))"

text \<open>
  The event loop of one invocation: an event reaches its callback only while the process
  has not exited and the callback is registered (the promotion check while its interval
  is set, the reaper while \<open>checkInterval\<close> is, the forced exit once it is armed).
\<close>

datatype event =
    ChildExit "int option" "signal option"
  | ChildError
  | Signal signal
  | ForceExit
  | PromotionTick int
  | ReaperTick

fun deliver ::
  "(int \<Rightarrow> bool) \<Rightarrow> string option \<Rightarrow> path list \<Rightarrow> event \<Rightarrow> proc \<times> filesystem \<Rightarrow> proc \<times> filesystem" where
  "deliver kill0 env dirs ev (p, fs) =
     (if exitCode p \<noteq> None then (p, fs)
      else (case ev of
              ChildExit code sig \<Rightarrow>
                if childExited p then (p, fs) else on_child_exit code sig (p, fs)
            | ChildError \<Rightarrow> on_child_error (p, fs)
            | Signal sig \<Rightarrow> on_signal sig (p, fs)
            | ForceExit \<Rightarrow>
                (case forceExitTimer p of None \<Rightarrow> (p, fs) | Some sig \<Rightarrow> on_force_exit sig (p, fs))
            | PromotionTick now \<Rightarrow>
                if promotionCheckInterval p then promotion_tick kill0 env dirs now (p, fs) else (p, fs)
            | ReaperTick \<Rightarrow>
                (case state p of
                   None \<Rightarrow> (p, fs)
                 | Some st \<Rightarrow> if checkInterval st then reaper_tick kill0 (p, fs) else (p, fs))))"

fun run_events ::
  "(int \<Rightarrow> bool) \<Rightarrow> string option \<Rightarrow> path list \<Rightarrow> event list \<Rightarrow> proc \<times> filesystem \<Rightarrow> proc \<times> filesystem" where
  "run_events kill0 env dirs [] w = w"
| "run_events kill0 env dirs (ev # evs) w = run_events kill0 env dirs evs (deliver kill0 env dirs ev w)"


section \<open>Notions the properties are stated with\<close>

text \<open>
  Times of change events after an event at time \<open>t\<close>: a burst, in which every event
  comes less than the quiet period of 100 ms after the one before, and events spaced
  beyond the quiet period.
\<close>

fun burst :: "nat \<Rightarrow> nat list \<Rightarrow> bool" where
  "burst t [] = True"
| "burst t (u # us) = (t \<le> u \<and> u < t + 100 \<and> burst u us)"

fun spaced :: "nat \<Rightarrow> nat list \<Rightarrow> bool" where
  "spaced t [] = True"
| "spaced t (u # us) = (t + 100 < u \<and> spaced u us)"

text \<open>
  A spelling of the word \<open>w\<close> in some letter case: letter by letter, the character of
  \<open>w\<close> or its upper-case form.
\<close>

definition upper_char :: "char \<Rightarrow> char" where
  "upper_char c =
     (if 97 \<le> (of_char c :: nat) \<and> (of_char c :: nat) \<le> 122
      then char_of ((of_char c :: nat) - 32) else c)"

definition spelling_of :: "string \<Rightarrow> string \<Rightarrow> bool" where
  "spelling_of w v = list_all2 (\<lambda>a b. a = b \<or> a = upper_char b) v w"

section \<open>Concrete states\<close>

text \<open>
  A workspace \<^verbatim>\<open>/w\<close> with the injected directory \<^verbatim>\<open>/w/a\<close>, and the leader 11 of it as
  \<^verbatim>\<open>runCommand\<close> leaves it, with one debounce timer pending.
\<close>

definition demo_lock :: path where
  "demo_lock = ''/w/.pnpm-injected-sync.lock''"



definition demo_client :: proc where
  "demo_client =
     (init_proc 12 demo_lock)\<lparr>promotionCheckInterval := True,
                               child := Some ''vite'', keepAlive := True\<rparr>"

section \<open>Properties of the lock\<close>

lemma acquireLock_held:
  "lockFiles fs lockFile \<noteq> None \<Longrightarrow> acquireLock fs lockFile pid now = (Inr False, fs)"
  by (simp add: acquireLock_def writeFile_wx_def)

lemma acquireLock_free:
  "lockFiles fs lockFile = None \<Longrightarrow> wx_fault fs = None \<Longrightarrow>
   acquireLock fs lockFile pid now =
     (Inr True, fs\<lparr>lockFiles := (lockFiles fs)(lockFile \<mapsto> LockRecord pid now),
                    journal := journal fs @ [Wrote lockFile]\<rparr>)"
  by (simp add: acquireLock_def writeFile_wx_def)

lemma acquireLock_fault:
  "lockFiles fs lockFile = None \<Longrightarrow> wx_fault fs = Some e \<Longrightarrow>
   acquireLock fs lockFile pid now =
     (if e = ''EEXIST'' then Inr False else Inl (SystemError e), fs)"
  by (simp add: acquireLock_def writeFile_wx_def)

lemma acquireLock_cases:
  "acquireLock fs lockFile pid now =
     (if lockFiles fs lockFile \<noteq> None then (Inr False, fs)
      else case wx_fault fs of
             None \<Rightarrow> (Inr True, fs\<lparr>lockFiles := (lockFiles fs)(lockFile \<mapsto> LockRecord pid now),
                    journal := journal fs @ [Wrote lockFile]\<rparr>)
           | Some e \<Rightarrow> (if e = ''EEXIST'' then Inr False else Inl (SystemError e), fs))"
  by (simp add: acquireLock_def writeFile_wx_def split: option.splits)

lemma lock_step_dom:
  "dom (lockFiles fs) \<subseteq> {lockFile} \<Longrightarrow> dom (lockFiles (snd (lock_step lockFile fs x))) \<subseteq> {lockFile}"
  by (cases x) (auto simp: acquireLock_cases release_def unlink_lock_def split: option.splits if_splits)

lemma lock_run_dom:
  "dom (lockFiles fs) \<subseteq> {lockFile} \<Longrightarrow> dom (lockFiles (snd (lock_run lockFile fs ops))) \<subseteq> {lockFile}"
proof (induction ops arbitrary: fs)
  case Nil
  then show ?case by simp
next
  case (Cons x xs)
  have "dom (lockFiles (snd (lock_step lockFile fs x))) \<subseteq> {lockFile}"
    using Cons.prems by (rule lock_step_dom)
  moreover have "snd (lock_run lockFile fs (x # xs))
      = snd (lock_run lockFile (snd (lock_step lockFile fs x)) xs)"
    by (simp split: prod.splits)
  ultimately show ?case
    using Cons.IH by simp
qed

lemma lock_run_held:
  "lockFiles fs lockFile \<noteq> None \<Longrightarrow>
   lock_run lockFile fs (map (\<lambda>(pid, now). Acquire pid now) attempts)
     = (replicate (length attempts) (Some (Inr False)), fs)"
  by (induction attempts) (auto simp: acquireLock_held)

lemma lock_run_first:
  assumes "lockFiles fs lockFile = None" "wx_fault fs = None"
  shows "lock_run lockFile fs (map (\<lambda>(pid, now). Acquire pid now) ((pid, now) # attempts))
     = (Some (Inr True) # replicate (length attempts) (Some (Inr False)),
        fs\<lparr>lockFiles := (lockFiles fs)(lockFile \<mapsto> LockRecord pid now),
                    journal := journal fs @ [Wrote lockFile]\<rparr>)"
  using assms by (simp add: acquireLock_free lock_run_held)

text \<open>
  C1. \<^verbatim>\<open>acquireLock\<close> returns true exactly when the lock file did not exist and this
  call created it (the file then holds this call's record), returns false and changes
  nothing when the file exists, and throws any other error of the write. Starting from
  a store without lock records, after every prefix of a history of acquire and release
  operations at most one lock record exists (only the lock file's). Of the attempts made
  on a free lock, in whatever order they take effect, exactly one returns true and all
  the others return false; the record is the winner's. (Nothing here needs the owner
  identifiers to be distinct.)
\<close>

theorem acquireLock_exclusive:
  "(fst (acquireLock fs lockFile pid now) = Inr True
      \<longleftrightarrow> lockFiles fs lockFile = None
          \<and> lockFiles (snd (acquireLock fs lockFile pid now)) lockFile = Some (LockRecord pid now))
   \<and> (lockFiles fs lockFile \<noteq> None \<longrightarrow> acquireLock fs lockFile pid now = (Inr False, fs))
   \<and> (lockFiles fs lockFile = None \<and> wx_fault fs = Some e \<and> e \<noteq> ''EEXIST''
        \<longrightarrow> acquireLock fs lockFile pid now = (Inl (SystemError e), fs))
   \<and> (lockFiles fs = Map.empty
        \<longrightarrow> (\<forall>n. dom (lockFiles (snd (lock_run lockFile fs (take n ops)))) \<subseteq> {lockFile}))
   \<and> (lockFiles fs lockFile = None \<and> wx_fault fs = None \<and> attempts \<noteq> []
        \<longrightarrow> length (filter (\<lambda>r. r = Some (Inr True))
               (fst (lock_run lockFile fs (map (\<lambda>(pid, now). Acquire pid now) attempts)))) = 1
          \<and> length (filter (\<lambda>r. r = Some (Inr False))
               (fst (lock_run lockFile fs (map (\<lambda>(pid, now). Acquire pid now) attempts))))
              = length attempts - 1
          \<and> lockFiles (snd (lock_run lockFile fs (map (\<lambda>(pid, now). Acquire pid now) attempts))) lockFile
              = Some (LockRecord (fst (hd attempts)) (snd (hd attempts))))"
proof (intro conjI impI allI)
  show "(fst (acquireLock fs lockFile pid now) = Inr True)
      = (lockFiles fs lockFile = None
          \<and> lockFiles (snd (acquireLock fs lockFile pid now)) lockFile = Some (LockRecord pid now))"
    by (auto simp: acquireLock_cases split: option.splits)
next
  assume "lockFiles fs lockFile \<noteq> None"
  then show "acquireLock fs lockFile pid now = (Inr False, fs)" by (rule acquireLock_held)
next
  assume "lockFiles fs lockFile = None \<and> wx_fault fs = Some e \<and> e \<noteq> ''EEXIST''"
  then show "acquireLock fs lockFile pid now = (Inl (SystemError e), fs)"
    by (simp add: acquireLock_fault)
next
  fix n
  assume "lockFiles fs = Map.empty"
  then have "dom (lockFiles fs) \<subseteq> {lockFile}" by simp
  then show "dom (lockFiles (snd (lock_run lockFile fs (take n ops)))) \<subseteq> {lockFile}"
    by (rule lock_run_dom)
next
  assume a: "lockFiles fs lockFile = None \<and> wx_fault fs = None \<and> attempts \<noteq> []"
  then obtain p t rest where att: "attempts = (p, t) # rest"
    by (cases attempts) auto
  have run: "lock_run lockFile fs (map (\<lambda>(pid, now). Acquire pid now) attempts)
     = (Some (Inr True) # replicate (length rest) (Some (Inr False)),
        fs\<lparr>lockFiles := (lockFiles fs)(lockFile \<mapsto> LockRecord p t),
                    journal := journal fs @ [Wrote lockFile]\<rparr>)"
    unfolding att using a by (intro lock_run_first) auto
  show "length (filter (\<lambda>r. r = Some (Inr True))
               (fst (lock_run lockFile fs (map (\<lambda>(pid, now). Acquire pid now) attempts)))) = 1"
    by (simp add: run)
  show "length (filter (\<lambda>r. r = Some (Inr False))
               (fst (lock_run lockFile fs (map (\<lambda>(pid, now). Acquire pid now) attempts))))
              = length attempts - 1"
    unfolding run by (simp add: att)
  show "lockFiles (snd (lock_run lockFile fs (map (\<lambda>(pid, now). Acquire pid now) attempts))) lockFile
              = Some (LockRecord (fst (hd attempts)) (snd (hd attempts)))"
    unfolding run by (simp add: att)
qed

theorem acquireLock_exclusive_witness:
  "fst (lock_run ''/w/.pnpm-injected-sync.lock'' empty_fs [Acquire 11 0, Acquire 12 0, Acquire 13 1])
     = [Some (Inr True), Some (Inr False), Some (Inr False)]
   \<and> length (filter (\<lambda>r. r = Some (Inr True))
        (fst (lock_run ''/w/.pnpm-injected-sync.lock'' empty_fs
               (map (\<lambda>(pid, now). Acquire pid now) [(11, 0), (12, 0), (13, 1)])))) = 1
   \<and> dom (lockFiles (snd (lock_run ''/w/.pnpm-injected-sync.lock'' empty_fs
        (take 3 [Acquire 11 0, Acquire 12 0, Release, Acquire 13 1]))))
       \<subseteq> {''/w/.pnpm-injected-sync.lock''}
   \<and> acquireLock (empty_fs\<lparr>lockFiles := [''/w/.pnpm-injected-sync.lock'' \<mapsto> LockRecord 11 0]\<rparr>)
        ''/w/.pnpm-injected-sync.lock'' 12 0
       = (Inr False, empty_fs\<lparr>lockFiles := [''/w/.pnpm-injected-sync.lock'' \<mapsto> LockRecord 11 0]\<rparr>)
   \<and> acquireLock (empty_fs\<lparr>wx_fault := Some ''EACCES''\<rparr>) ''/w/.pnpm-injected-sync.lock'' 12 0
       = (Inl (SystemError ''EACCES''), empty_fs\<lparr>wx_fault := Some ''EACCES''\<rparr>)"
  using acquireLock_exclusive [of empty_fs "''/w/.pnpm-injected-sync.lock''" 11 0 "''EACCES''"
          "[Acquire 11 0, Acquire 12 0, Release, Acquire 13 1]" "[(11, 0), (12, 0), (13, 1)]"]
        acquireLock_exclusive [of "empty_fs\<lparr>lockFiles := [''/w/.pnpm-injected-sync.lock'' \<mapsto> LockRecord 11 0]\<rparr>"
          "''/w/.pnpm-injected-sync.lock''" 12 0 "''EACCES''" "[]" "[]"]
        acquireLock_exclusive [of "empty_fs\<lparr>wx_fault := Some ''EACCES''\<rparr>"
          "''/w/.pnpm-injected-sync.lock''" 12 0 "''EACCES''" "[]" "[]"]
  by (simp add: empty_fs_def acquireLock_def writeFile_wx_def release_def unlink_lock_def)

section \<open>Properties of the client registry\<close>

lemma readClients_cases:
  "readClients fs p =
     (case clientFiles fs p of
        None \<Rightarrow> None
      | Some ClientGarbage \<Rightarrow> None
      | Some (ClientList cs) \<Rightarrow> Some cs)"
  by (simp add: readClients_def readFile_clients_def split: option.splits client_content.splits)

lemma readClients_write [simp]:
  "readClients (writeFile_clients fs p cs) p = Some cs"
  by (simp add: readClients_cases writeFile_clients_def)

lemma readClients_try_unlink [simp]:
  "readClients (try_unlink_clients fs p) p = None"
  by (simp add: readClients_cases try_unlink_clients_def unlink_clients_def)

lemma try_unlink_clients_cases:
  "try_unlink_clients fs p =
     (if clientFiles fs p = None then fs
      else fs\<lparr>clientFiles := (clientFiles fs)(p := None), journal := journal fs @ [Unlinked p]\<rparr>)"
  by (simp add: try_unlink_clients_def unlink_clients_def)

lemma filter_neq_append_self:
  "pid \<notin> set cs \<Longrightarrow> filter (\<lambda>p. p \<noteq> pid) (cs @ [pid]) = cs"
  by (induction cs) auto

lemma filter_neq_fresh:
  "pid \<notin> set cs \<Longrightarrow> filter (\<lambda>p. p \<noteq> pid) cs = cs"
  by (induction cs) auto

lemma filter_neq_sole:
  "set cs = {pid} \<Longrightarrow> filter (\<lambda>p. p \<noteq> pid) cs = []"
  by (auto simp: filter_empty_conv)

text \<open>
  C10. When the client file is missing or holds text that does not parse,
  \<^verbatim>\<open>unregisterClient\<close> returns the empty list and leaves the files and the journal as
  they are: it writes nothing and deletes nothing, so a corrupt client file stays in
  place.
\<close>

theorem unregisterClient_unreadable:
  "clientFiles fs (clientFile lockFile) = None
     \<or> clientFiles fs (clientFile lockFile) = Some ClientGarbage
   \<Longrightarrow> unregisterClient fs lockFile pid = ([], fs)
       \<and> journal (snd (unregisterClient fs lockFile pid)) = journal fs
       \<and> clientFiles (snd (unregisterClient fs lockFile pid)) (clientFile lockFile)
           = clientFiles fs (clientFile lockFile)"
  by (auto simp: unregisterClient_def readClients_cases)

theorem unregisterClient_unreadable_witness:
  "unregisterClient (empty_fs\<lparr>clientFiles := [clientFile ''/w/.pnpm-injected-sync.lock'' \<mapsto> ClientGarbage]\<rparr>)
       ''/w/.pnpm-injected-sync.lock'' 7
     = ([], empty_fs\<lparr>clientFiles := [clientFile ''/w/.pnpm-injected-sync.lock'' \<mapsto> ClientGarbage]\<rparr>)
   \<and> unregisterClient empty_fs ''/w/.pnpm-injected-sync.lock'' 7 = ([], empty_fs)"
  using unregisterClient_unreadable
          [of "empty_fs\<lparr>clientFiles := [clientFile ''/w/.pnpm-injected-sync.lock'' \<mapsto> ClientGarbage]\<rparr>"
              "''/w/.pnpm-injected-sync.lock''" 7]
        unregisterClient_unreadable [of empty_fs "''/w/.pnpm-injected-sync.lock''" 7]
  by (simp add: empty_fs_def)

text \<open>
  C4, as the claim states it, fails: \<^verbatim>\<open>registerClient\<close> writes nothing when the
  identifier is already a member, and \<^verbatim>\<open>unregisterClient\<close> then removes the member that
  was there before. With the client file \<^verbatim>\<open>[7]\<close>, registering and unregistering 7 ends
  with the file deleted.
\<close>

theorem register_unregister_member_counterexample:
  "members (empty_fs\<lparr>clientFiles := [clientFile ''/w/.pnpm-injected-sync.lock'' \<mapsto> ClientList [7]]\<rparr>)
       ''/w/.pnpm-injected-sync.lock'' = [7]
   \<and> members (snd (unregisterClient
         (registerClient
            (empty_fs\<lparr>clientFiles := [clientFile ''/w/.pnpm-injected-sync.lock'' \<mapsto> ClientList [7]]\<rparr>)
            ''/w/.pnpm-injected-sync.lock'' 7)
         ''/w/.pnpm-injected-sync.lock'' 7)) ''/w/.pnpm-injected-sync.lock'' = []
   \<and> clientFiles (snd (unregisterClient
         (registerClient
            (empty_fs\<lparr>clientFiles := [clientFile ''/w/.pnpm-injected-sync.lock'' \<mapsto> ClientList [7]]\<rparr>)
            ''/w/.pnpm-injected-sync.lock'' 7)
         ''/w/.pnpm-injected-sync.lock'' 7)) (clientFile ''/w/.pnpm-injected-sync.lock'') = None"
  by (simp add: members_def registerClient_def unregisterClient_def readClients_cases
        try_unlink_clients_cases empty_fs_def)

text \<open>
  C4, amended. For every state of the client file (missing, unparsable or a list) in
  which the identifier is not already a member, \<^verbatim>\<open>registerClient\<close> followed by
  \<^verbatim>\<open>unregisterClient\<close> of the same identifier returns the members there were before and
  leaves the registry with exactly those members; the client file itself is as before
  when it was missing or held a non-empty list, and the lock file is not touched. And for
  every state in which the identifier is the sole member, \<^verbatim>\<open>unregisterClient\<close> deletes
  the client file and returns the empty list.
\<close>

theorem register_unregister_roundtrip:
  "(pid \<notin> set (members fs lockFile) \<longrightarrow>
      fst (unregisterClient (registerClient fs lockFile pid) lockFile pid) = members fs lockFile
      \<and> members (snd (unregisterClient (registerClient fs lockFile pid) lockFile pid)) lockFile
          = members fs lockFile
      \<and> lockFiles (snd (unregisterClient (registerClient fs lockFile pid) lockFile pid))
          = lockFiles fs
      \<and> (clientFiles fs (clientFile lockFile) = None
            \<or> (\<exists>cs. cs \<noteq> [] \<and> clientFiles fs (clientFile lockFile) = Some (ClientList cs))
          \<longrightarrow> clientFiles (snd (unregisterClient (registerClient fs lockFile pid) lockFile pid))
              = clientFiles fs))
   \<and> (clientFiles fs (clientFile lockFile) = Some (ClientList cs) \<and> set cs = {pid} \<longrightarrow>
        unregisterClient fs lockFile pid
          = ([], fs\<lparr>clientFiles := (clientFiles fs)(clientFile lockFile := None),
                    journal := journal fs @ [Unlinked (clientFile lockFile)]\<rparr>))"
proof (intro conjI impI)
  assume fresh: "pid \<notin> set (members fs lockFile)"
  let ?cs = "members fs lockFile"
  let ?fs1 = "registerClient fs lockFile pid"
  have reg: "?fs1 = writeFile_clients fs (clientFile lockFile) (?cs @ [pid])"
    using fresh by (simp add: registerClient_def members_def)
  have unreg: "unregisterClient ?fs1 lockFile pid
      = (?cs, if ?cs = [] then try_unlink_clients ?fs1 (clientFile lockFile)
              else writeFile_clients ?fs1 (clientFile lockFile) ?cs)"
  proof -
    have f: "filter (\<lambda>p. p \<noteq> pid) ?cs = ?cs"
      using fresh by (rule filter_neq_fresh)
    show ?thesis
      by (simp add: reg unregisterClient_def f Let_def)
  qed
  show "fst (unregisterClient ?fs1 lockFile pid) = ?cs"
    by (simp add: unreg)
  show "members (snd (unregisterClient ?fs1 lockFile pid)) lockFile = ?cs"
    by (simp add: unreg members_def)
  show "lockFiles (snd (unregisterClient ?fs1 lockFile pid)) = lockFiles fs"
    unfolding unreg by (simp add: reg writeFile_clients_def try_unlink_clients_cases)
  assume "clientFiles fs (clientFile lockFile) = None
            \<or> (\<exists>cs. cs \<noteq> [] \<and> clientFiles fs (clientFile lockFile) = Some (ClientList cs))"
  then show "clientFiles (snd (unregisterClient ?fs1 lockFile pid)) = clientFiles fs"
    unfolding unreg
    by (auto simp: reg members_def readClients_cases writeFile_clients_def
          try_unlink_clients_cases fun_upd_idem)
next
  assume "clientFiles fs (clientFile lockFile) = Some (ClientList cs) \<and> set cs = {pid}"
  then show "unregisterClient fs lockFile pid
          = ([], fs\<lparr>clientFiles := (clientFiles fs)(clientFile lockFile := None),
                    journal := journal fs @ [Unlinked (clientFile lockFile)]\<rparr>)"
    by (simp add: unregisterClient_def readClients_cases filter_neq_sole try_unlink_clients_cases)
qed

theorem register_unregister_roundtrip_witness:
  "members (snd (unregisterClient
       (registerClient
          (empty_fs\<lparr>clientFiles := [clientFile ''/w/.pnpm-injected-sync.lock'' \<mapsto> ClientList [5, 6]]\<rparr>)
          ''/w/.pnpm-injected-sync.lock'' 7)
       ''/w/.pnpm-injected-sync.lock'' 7)) ''/w/.pnpm-injected-sync.lock'' = [5, 6]
   \<and> registerClient
        (empty_fs\<lparr>clientFiles := [clientFile ''/w/.pnpm-injected-sync.lock'' \<mapsto> ClientList [5, 6]]\<rparr>)
        ''/w/.pnpm-injected-sync.lock'' 7
       = empty_fs\<lparr>clientFiles := [clientFile ''/w/.pnpm-injected-sync.lock'' \<mapsto> ClientList [5, 6, 7]],
             journal := [Wrote (clientFile ''/w/.pnpm-injected-sync.lock'')]\<rparr>
   \<and> unregisterClient
        (empty_fs\<lparr>clientFiles := [clientFile ''/w/.pnpm-injected-sync.lock'' \<mapsto> ClientList [7]]\<rparr>)
        ''/w/.pnpm-injected-sync.lock'' 7
       = ([], empty_fs\<lparr>journal := [Unlinked (clientFile ''/w/.pnpm-injected-sync.lock'')]\<rparr>)"
  using register_unregister_roundtrip
          [of 7 "empty_fs\<lparr>clientFiles := [clientFile ''/w/.pnpm-injected-sync.lock'' \<mapsto> ClientList [5, 6]]\<rparr>"
              "''/w/.pnpm-injected-sync.lock''" "[]"]
        register_unregister_roundtrip
          [of 7 "empty_fs\<lparr>clientFiles := [clientFile ''/w/.pnpm-injected-sync.lock'' \<mapsto> ClientList [7]]\<rparr>"
              "''/w/.pnpm-injected-sync.lock''" "[7]"]
  by (simp add: empty_fs_def members_def readClients_cases registerClient_def writeFile_clients_def)

text \<open>
  C6, as the claim states it, fails for a stored empty list: \<^verbatim>\<open>cleanupStaleClients\<close>
  touches the file only when pruning removed a member, so the file \<^verbatim>\<open>[]\<close> is left in
  place although the filtered subset is empty.
\<close>

theorem cleanupStaleClients_empty_counterexample:
  "cleanupStaleClients (\<lambda>pid. True)
       (empty_fs\<lparr>clientFiles := [clientFile ''/w/.pnpm-injected-sync.lock'' \<mapsto> ClientList []]\<rparr>)
       ''/w/.pnpm-injected-sync.lock''
     = ([], empty_fs\<lparr>clientFiles := [clientFile ''/w/.pnpm-injected-sync.lock'' \<mapsto> ClientList []]\<rparr>)
   \<and> clientFiles (snd (cleanupStaleClients (\<lambda>pid. True)
         (empty_fs\<lparr>clientFiles := [clientFile ''/w/.pnpm-injected-sync.lock'' \<mapsto> ClientList []]\<rparr>)
         ''/w/.pnpm-injected-sync.lock'')) (clientFile ''/w/.pnpm-injected-sync.lock'')
       = Some (ClientList [])"
  by (simp add: cleanupStaleClients_def readClients_cases empty_fs_def)

text \<open>
  C6, amended. For every stored client list and every liveness predicate,
  \<^verbatim>\<open>cleanupStaleClients\<close> returns exactly the members for which the predicate holds, in
  their stored order; afterwards the client file holds that filtered list when it is not
  empty, and is deleted when it is empty and at least one member was pruned. When nothing
  was pruned (a stored empty list included) the call writes nothing and deletes nothing.
\<close>

theorem cleanupStaleClients_prunes:
  "clientFiles fs (clientFile lockFile) = Some (ClientList cs) \<Longrightarrow>
     fst (cleanupStaleClients kill0 fs lockFile) = filter kill0 cs
     \<and> (filter kill0 cs \<noteq> [] \<longrightarrow>
          clientFiles (snd (cleanupStaleClients kill0 fs lockFile)) (clientFile lockFile)
            = Some (ClientList (filter kill0 cs)))
     \<and> (filter kill0 cs = [] \<and> cs \<noteq> [] \<longrightarrow>
          clientFiles (snd (cleanupStaleClients kill0 fs lockFile)) (clientFile lockFile) = None)
     \<and> (filter kill0 cs = cs \<longrightarrow> snd (cleanupStaleClients kill0 fs lockFile) = fs)
     \<and> lockFiles (snd (cleanupStaleClients kill0 fs lockFile)) = lockFiles fs"
proof -
  assume stored: "clientFiles fs (clientFile lockFile) = Some (ClientList cs)"
  have probe: "isProcessRunning kill0 = kill0"
    by (rule ext) (simp add: isProcessRunning_def)
  have len: "length (filter kill0 cs) = length cs \<longleftrightarrow> filter kill0 cs = cs"
    by (metis filter_True length_filter_less less_irrefl filter_id_conv)
  show ?thesis
    using stored len
    by (auto simp: cleanupStaleClients_def readClients_cases probe Let_def writeFile_clients_def
          try_unlink_clients_cases)
qed

theorem cleanupStaleClients_prunes_witness:
  "cleanupStaleClients (\<lambda>pid. pid = 6)
       (empty_fs\<lparr>clientFiles := [clientFile ''/w/.pnpm-injected-sync.lock'' \<mapsto> ClientList [5, 6, 7]]\<rparr>)
       ''/w/.pnpm-injected-sync.lock''
     = ([6], empty_fs\<lparr>clientFiles := [clientFile ''/w/.pnpm-injected-sync.lock'' \<mapsto> ClientList [6]],
           journal := [Wrote (clientFile ''/w/.pnpm-injected-sync.lock'')]\<rparr>)
   \<and> clientFiles (snd (cleanupStaleClients (\<lambda>pid. False)
         (empty_fs\<lparr>clientFiles := [clientFile ''/w/.pnpm-injected-sync.lock'' \<mapsto> ClientList [5, 6, 7]]\<rparr>)
         ''/w/.pnpm-injected-sync.lock'')) (clientFile ''/w/.pnpm-injected-sync.lock'') = None"
  using cleanupStaleClients_prunes
          [of "empty_fs\<lparr>clientFiles := [clientFile ''/w/.pnpm-injected-sync.lock'' \<mapsto> ClientList [5, 6, 7]]\<rparr>"
              "''/w/.pnpm-injected-sync.lock''" "[5, 6, 7]" "\<lambda>pid. pid = 6"]
        cleanupStaleClients_prunes
          [of "empty_fs\<lparr>clientFiles := [clientFile ''/w/.pnpm-injected-sync.lock'' \<mapsto> ClientList [5, 6, 7]]\<rparr>"
              "''/w/.pnpm-injected-sync.lock''" "[5, 6, 7]" "\<lambda>pid. False"]
  by (simp add: empty_fs_def cleanupStaleClients_def readClients_cases isProcessRunning_def
        writeFile_clients_def Let_def)

section \<open>Properties of promotion\<close>

lemma tryPromoteToWatcher_garbage:
  "lockFiles fs lockFile = Some LockGarbage \<Longrightarrow>
   tryPromoteToWatcher kill0 fs lockFile pid now = (Inr False, fs)"
  by (simp add: tryPromoteToWatcher_def readFile_lock_def tryPromote_catch_def)

lemma tryPromoteToWatcher_absent:
  "lockFiles fs lockFile = None \<Longrightarrow>
   tryPromoteToWatcher kill0 fs lockFile pid now = acquireLock fs lockFile pid now"
  by (simp add: tryPromoteToWatcher_def readFile_lock_def tryPromote_catch_def)

lemma promotion_ticks_garbage:
  "lockFiles fs lockFile = Some LockGarbage \<Longrightarrow>
   promotion_ticks n kill0 fs lockFile pid now = (Inr False, fs)"
  by (induction n arbitrary: now) (simp_all add: tryPromoteToWatcher_garbage)

text \<open>
  C3, as the claim states it, fails: the \<^verbatim>\<open>catch\<close> of \<^verbatim>\<open>tryPromoteToWatcher\<close> goes
  on to \<^verbatim>\<open>acquireLock\<close> only for ENOENT. A lock file that does not parse makes the
  attempt return false with the file left as it is, where the same attempt on a missing
  lock file acquires the lock; the owner recorded is not even looked at (here no process
  is alive).
\<close>

theorem tryPromoteToWatcher_unparsable_counterexample:
  "tryPromoteToWatcher (\<lambda>pid. False)
       (empty_fs\<lparr>lockFiles := [''/w/.pnpm-injected-sync.lock'' \<mapsto> LockGarbage]\<rparr>)
       ''/w/.pnpm-injected-sync.lock'' 7 1000
     = (Inr False, empty_fs\<lparr>lockFiles := [''/w/.pnpm-injected-sync.lock'' \<mapsto> LockGarbage]\<rparr>)
   \<and> promotion_ticks 50 (\<lambda>pid. False)
       (empty_fs\<lparr>lockFiles := [''/w/.pnpm-injected-sync.lock'' \<mapsto> LockGarbage]\<rparr>)
       ''/w/.pnpm-injected-sync.lock'' 7 1000
     = (Inr False, empty_fs\<lparr>lockFiles := [''/w/.pnpm-injected-sync.lock'' \<mapsto> LockGarbage]\<rparr>)
   \<and> tryPromoteToWatcher (\<lambda>pid. False) empty_fs ''/w/.pnpm-injected-sync.lock'' 7 1000
     = (Inr True, empty_fs\<lparr>lockFiles := [''/w/.pnpm-injected-sync.lock'' \<mapsto> LockRecord 7 1000],
           journal := [Wrote ''/w/.pnpm-injected-sync.lock'']\<rparr>)"
proof (intro conjI)
  show "tryPromoteToWatcher (\<lambda>pid. False)
       (empty_fs\<lparr>lockFiles := [''/w/.pnpm-injected-sync.lock'' \<mapsto> LockGarbage]\<rparr>)
       ''/w/.pnpm-injected-sync.lock'' 7 1000
     = (Inr False, empty_fs\<lparr>lockFiles := [''/w/.pnpm-injected-sync.lock'' \<mapsto> LockGarbage]\<rparr>)"
    by (rule tryPromoteToWatcher_garbage) simp
  show "promotion_ticks 50 (\<lambda>pid. False)
       (empty_fs\<lparr>lockFiles := [''/w/.pnpm-injected-sync.lock'' \<mapsto> LockGarbage]\<rparr>)
       ''/w/.pnpm-injected-sync.lock'' 7 1000
     = (Inr False, empty_fs\<lparr>lockFiles := [''/w/.pnpm-injected-sync.lock'' \<mapsto> LockGarbage]\<rparr>)"
    by (rule promotion_ticks_garbage) simp
  show "tryPromoteToWatcher (\<lambda>pid. False) empty_fs ''/w/.pnpm-injected-sync.lock'' 7 1000
     = (Inr True, empty_fs\<lparr>lockFiles := [''/w/.pnpm-injected-sync.lock'' \<mapsto> LockRecord 7 1000],
           journal := [Wrote ''/w/.pnpm-injected-sync.lock'']\<rparr>)"
    by (simp add: tryPromoteToWatcher_absent acquireLock_free empty_fs_def)
qed

text \<open>
  C3, amended. For every lock file whose content is present but does not parse, a
  promotion attempt returns false, throws nothing, and leaves the files and the journal
  as they are: it neither unlinks the record nor tries to acquire the lock. So does every
  later attempt while the content stays as it is, however many ticks pass: the record
  blocks promotion until something else removes the file. The client's promotion check
  changes nothing in the process either: it stays a client, its interval stays set, and
  no error is raised or recorded.
\<close>

theorem tryPromoteToWatcher_unparsable:
  "lockFiles fs lockFile = Some LockGarbage \<Longrightarrow>
     tryPromoteToWatcher kill0 fs lockFile pid now = (Inr False, fs)
     \<and> promotion_ticks n kill0 fs lockFile pid now = (Inr False, fs)
     \<and> (proc_lockFile p = lockFile \<longrightarrow> promotion_tick kill0 env dirs now' (p, fs) = (p, fs))"
  by (simp add: tryPromoteToWatcher_garbage promotion_ticks_garbage promotion_tick_def)

theorem tryPromoteToWatcher_unparsable_witness:
  "promotion_ticks 3 (\<lambda>pid. False)
       (empty_fs\<lparr>lockFiles := [''/w/.pnpm-injected-sync.lock'' \<mapsto> LockGarbage]\<rparr>)
       ''/w/.pnpm-injected-sync.lock'' 7 1000
     = (Inr False, empty_fs\<lparr>lockFiles := [''/w/.pnpm-injected-sync.lock'' \<mapsto> LockGarbage]\<rparr>)
   \<and> promotion_tick (\<lambda>pid. False) None [''/w/a''] 3000
       ((init_proc 7 ''/w/.pnpm-injected-sync.lock'')\<lparr>promotionCheckInterval := True\<rparr>,
        empty_fs\<lparr>lockFiles := [''/w/.pnpm-injected-sync.lock'' \<mapsto> LockGarbage]\<rparr>)
     = ((init_proc 7 ''/w/.pnpm-injected-sync.lock'')\<lparr>promotionCheckInterval := True\<rparr>,
        empty_fs\<lparr>lockFiles := [''/w/.pnpm-injected-sync.lock'' \<mapsto> LockGarbage]\<rparr>)"
  using tryPromoteToWatcher_unparsable
          [of "empty_fs\<lparr>lockFiles := [''/w/.pnpm-injected-sync.lock'' \<mapsto> LockGarbage]\<rparr>"
              "''/w/.pnpm-injected-sync.lock''" "\<lambda>pid. False" 7 1000 3
              "(init_proc 7 ''/w/.pnpm-injected-sync.lock'')\<lparr>promotionCheckInterval := True\<rparr>"
              None "[''/w/a'']" 3000]
  by (simp add: init_proc_def)

section \<open>Properties of the reaper\<close>










section \<open>Properties of the supervisor\<close>

lemma registerClient_clientFiles:
  "clientFiles fs = clientFiles fs' \<Longrightarrow>
   clientFiles (registerClient fs lockFile pid) = clientFiles (registerClient fs' lockFile pid)"
  by (auto simp: registerClient_def readClients_cases writeFile_clients_def Let_def
        split: option.splits client_content.splits)

lemma registerClient_lockFiles:
  "lockFiles (registerClient fs lockFile pid) = lockFiles fs"
  by (simp add: registerClient_def writeFile_clients_def Let_def)

lemma registerClient_member:
  "pid \<in> set (members (registerClient fs lockFile pid) lockFile)"
  by (auto simp: registerClient_def members_def Let_def split: option.splits)

lemma startWatcherMode_no_dirs:
  "lockFiles fs lockFile \<noteq> None \<Longrightarrow> manifest_fault fs = None \<Longrightarrow>
   startWatcherMode env [] fs lockFile pid
     = (Inl (Error ''No injected dependencies found''),
        fs\<lparr>lockFiles := (lockFiles fs)(lockFile := None),
           journal := journal fs @ [Unlinked lockFile]\<rparr>)"
  by (simp add: startWatcherMode_def getInjectedDepsDirs_def unlink_lock_def)

text \<open>
  When \<^verbatim>\<open>startWatcherMode\<close> throws, the lock file is gone afterwards only if what it
  threw for was an empty list of directories; when the manifest could not be read or a
  watcher could not be set up, the lock file is as it was.
\<close>

lemma startWatcherMode_failure_lock:
  assumes "lockFiles fs lockFile \<noteq> None"
    and "fst (startWatcherMode env dirs fs lockFile pid) = Inl err"
  shows "lockFiles (snd (startWatcherMode env dirs fs lockFile pid)) lockFile = None
           \<longleftrightarrow> manifest_fault fs = None \<and> dirs = []"
    and "\<not> (manifest_fault fs = None \<and> dirs = []) \<Longrightarrow>
           lockFiles (snd (startWatcherMode env dirs fs lockFile pid)) = lockFiles fs"
  using assms
  by (auto simp: startWatcherMode_def getInjectedDepsDirs_def unlink_lock_def Let_def
        registerClient_lockFiles split: option.splits sum.splits)

lemma promotion_ticks_owner_alive:
  "lockFiles fs lockFile = Some (LockRecord owner t) \<Longrightarrow> kill0 owner \<Longrightarrow>
   promotion_ticks n kill0 fs lockFile pid now = (Inr False, fs)"
  by (induction n arbitrary: now)
     (simp_all add: tryPromoteToWatcher_def readFile_lock_def isProcessRunning_def)

lemma runCommand_no_dirs:
  assumes "\<not> isSyncDisabled env"
    and "lockFiles fs (ws @ ''/.pnpm-injected-sync.lock'') = None"
    and "wx_fault fs = None"
    and "manifest_fault fs = None"
  shows "runCommand args env (Some ws) [] fs pid now
     = (Inr (spawn_child args
          ((init_proc pid (ws @ ''/.pnpm-injected-sync.lock''))\<lparr>promotionCheckInterval := True\<rparr>)),
        registerClient
          (fs\<lparr>journal := journal fs @ [Wrote (ws @ ''/.pnpm-injected-sync.lock''),
                                       Unlinked (ws @ ''/.pnpm-injected-sync.lock'')]\<rparr>)
          (ws @ ''/.pnpm-injected-sync.lock'') pid)"
proof -
  let ?L = "ws @ ''/.pnpm-injected-sync.lock''"
  let ?fs1 = "fs\<lparr>lockFiles := (lockFiles fs)(?L \<mapsto> LockRecord pid now),
                  journal := journal fs @ [Wrote ?L]\<rparr>"
  have acq: "acquireLock fs ?L pid now = (Inr True, ?fs1)"
    using assms by (simp add: acquireLock_free)
  have "lockFiles ?fs1 ?L \<noteq> None" and "manifest_fault ?fs1 = None"
    using assms(4) by simp_all
  from startWatcherMode_no_dirs [OF this]
  have start: "startWatcherMode env [] ?fs1 ?L pid
     = (Inl (Error ''No injected dependencies found''),
        fs\<lparr>journal := journal fs @ [Wrote ?L, Unlinked ?L]\<rparr>)"
    using assms(2) by (simp add: fun_upd_idem)
  show ?thesis
    using assms(1) by (simp add: runCommand_def acq start init_proc_def Let_def)
qed

lemma runCommand_held:
  assumes "\<not> isSyncDisabled env"
    and "lockFiles fs (ws @ ''/.pnpm-injected-sync.lock'') \<noteq> None"
  shows "runCommand args env (Some ws) dirs fs pid now
     = (Inr (spawn_child args
          ((init_proc pid (ws @ ''/.pnpm-injected-sync.lock''))\<lparr>promotionCheckInterval := True\<rparr>)),
        registerClient fs (ws @ ''/.pnpm-injected-sync.lock'') pid)"
  using assms by (simp add: runCommand_def acquireLock_held init_proc_def Let_def)

text \<open>
  With the lock free and no directory to watch, \<^verbatim>\<open>runCommand\<close> acquires the lock,
  \<^verbatim>\<open>startWatcherMode\<close> unlinks the lock file and throws, and the invocation goes on as a
  client: it is not the watcher and has no watcher state, its identifier is registered in
  the client file, the promotion check is set, and the child is spawned. The lock file is
  absent afterwards. The process and the client file are exactly those of the same
  invocation finding the lock held by someone else, that is, of a failed acquisition.
\<close>

lemma runCommand_no_dirs_fallback:
  "\<not> isSyncDisabled env \<Longrightarrow> wx_fault fs = None \<Longrightarrow> manifest_fault fs = None \<Longrightarrow>
   lockFiles fs (ws @ ''/.pnpm-injected-sync.lock'') = None \<Longrightarrow>
     fst (acquireLock fs (ws @ ''/.pnpm-injected-sync.lock'') pid now) = Inr True
     \<and> fst (startWatcherMode env [] (snd (acquireLock fs (ws @ ''/.pnpm-injected-sync.lock'') pid now))
              (ws @ ''/.pnpm-injected-sync.lock'') pid)
         = Inl (Error ''No injected dependencies found'')
     \<and> (\<exists>p fs'. runCommand args env (Some ws) [] fs pid now = (Inr p, fs')
          \<and> \<not> isWatcher p \<and> state p = None \<and> promotionCheckInterval p
          \<and> child p = Some (join_args args) \<and> exitCode p = None
          \<and> lockFiles fs' (ws @ ''/.pnpm-injected-sync.lock'') = None
          \<and> pid \<in> set (members fs' (ws @ ''/.pnpm-injected-sync.lock''))
          \<and> clientFiles fs' = clientFiles (registerClient fs (ws @ ''/.pnpm-injected-sync.lock'') pid)
          \<and> (\<forall>held dirs.
                fst (runCommand args env (Some ws) dirs
                       (fs\<lparr>lockFiles := (lockFiles fs)(ws @ ''/.pnpm-injected-sync.lock'' \<mapsto> held)\<rparr>)
                       pid now) = Inr p
                \<and> clientFiles (snd (runCommand args env (Some ws) dirs
                       (fs\<lparr>lockFiles := (lockFiles fs)(ws @ ''/.pnpm-injected-sync.lock'' \<mapsto> held)\<rparr>)
                       pid now)) = clientFiles fs'))"
proof -
  let ?L = "ws @ ''/.pnpm-injected-sync.lock''"
  assume enabled: "\<not> isSyncDisabled env" and nofault: "wx_fault fs = None"
    and readable: "manifest_fault fs = None" and free: "lockFiles fs ?L = None"
  let ?p = "spawn_child args ((init_proc pid ?L)\<lparr>promotionCheckInterval := True\<rparr>)"
  let ?fs' = "registerClient (fs\<lparr>journal := journal fs @ [Wrote ?L, Unlinked ?L]\<rparr>) ?L pid"
  have run: "runCommand args env (Some ws) [] fs pid now = (Inr ?p, ?fs')"
    using enabled free nofault readable by (rule runCommand_no_dirs)
  have acq: "acquireLock fs ?L pid now
      = (Inr True, fs\<lparr>lockFiles := (lockFiles fs)(?L \<mapsto> LockRecord pid now),
                       journal := journal fs @ [Wrote ?L]\<rparr>)"
    using free nofault by (rule acquireLock_free)
  have cf: "clientFiles ?fs' = clientFiles (registerClient fs ?L pid)"
    by (rule registerClient_clientFiles) simp
  have held: "fst (runCommand args env (Some ws) dirs (fs\<lparr>lockFiles := (lockFiles fs)(?L \<mapsto> h)\<rparr>) pid now)
        = Inr ?p
      \<and> clientFiles (snd (runCommand args env (Some ws) dirs
            (fs\<lparr>lockFiles := (lockFiles fs)(?L \<mapsto> h)\<rparr>) pid now)) = clientFiles ?fs'" for h dirs
  proof -
    have "lockFiles (fs\<lparr>lockFiles := (lockFiles fs)(?L \<mapsto> h)\<rparr>) ?L \<noteq> None" by simp
    from runCommand_held [OF enabled this]
    have "runCommand args env (Some ws) dirs (fs\<lparr>lockFiles := (lockFiles fs)(?L \<mapsto> h)\<rparr>) pid now
      = (Inr ?p, registerClient (fs\<lparr>lockFiles := (lockFiles fs)(?L \<mapsto> h)\<rparr>) ?L pid)" .
    moreover have "clientFiles (registerClient (fs\<lparr>lockFiles := (lockFiles fs)(?L \<mapsto> h)\<rparr>) ?L pid)
        = clientFiles ?fs'"
      by (rule registerClient_clientFiles) simp
    ultimately show ?thesis by simp
  qed
  have "\<not> isWatcher ?p \<and> state ?p = None \<and> promotionCheckInterval ?p
          \<and> child ?p = Some (join_args args) \<and> exitCode ?p = None"
    by (simp add: spawn_child_def init_proc_def)
  moreover have "lockFiles ?fs' ?L = None"
    using free by (simp add: registerClient_lockFiles)
  moreover have "pid \<in> set (members ?fs' ?L)"
    by (rule registerClient_member)
  ultimately have "\<exists>p fs'. runCommand args env (Some ws) [] fs pid now = (Inr p, fs')
          \<and> \<not> isWatcher p \<and> state p = None \<and> promotionCheckInterval p
          \<and> child p = Some (join_args args) \<and> exitCode p = None
          \<and> lockFiles fs' ?L = None
          \<and> pid \<in> set (members fs' ?L)
          \<and> clientFiles fs' = clientFiles (registerClient fs ?L pid)
          \<and> (\<forall>held dirs.
                fst (runCommand args env (Some ws) dirs
                       (fs\<lparr>lockFiles := (lockFiles fs)(?L \<mapsto> held)\<rparr>) pid now) = Inr p
                \<and> clientFiles (snd (runCommand args env (Some ws) dirs
                       (fs\<lparr>lockFiles := (lockFiles fs)(?L \<mapsto> held)\<rparr>) pid now)) = clientFiles fs')"
    using run cf held by blast
  moreover have "fst (acquireLock fs ?L pid now) = Inr True"
    by (simp add: acq)
  moreover have "fst (startWatcherMode env [] (snd (acquireLock fs ?L pid now)) ?L pid)
         = Inl (Error ''No injected dependencies found'')"
    using readable by (simp add: acq startWatcherMode_no_dirs)
  ultimately show ?thesis by blast
qed

text \<open>
  C7. The lock is released only when \<^verbatim>\<open>startWatcherMode\<close> throws for an empty list of
  directories. When it throws because \<^verbatim>\<open>fs.watch\<close> cannot watch a directory, or because
  the manifest cannot be read, the \<^verbatim>\<open>catch\<close> of \<^verbatim>\<open>runCommand\<close> makes the invocation a
  client and leaves the lock file in place, holding the invocation's own identifier.
  Here invocation 12 finds the lock free in a workspace whose one injected directory
  \<^verbatim>\<open>/w/a\<close> cannot be watched: it ends as a registered client with the promotion check
  set, the lock file still holds its record, and since its own process is alive no
  promotion check, its own or another client's, ever takes the lock over. With no
  directory at all the same invocation leaves no lock file behind.
\<close>

theorem runCommand_watcher_failure_keeps_lock:
  "runCommand [''vite''] None (Some ''/w'') [''/w/a'']
       (empty_fs\<lparr>watch_fault := (\<lambda>dir. if dir = ''/w/a'' then Some ''ENOENT'' else None)\<rparr>) 12 1000
     = (Inr demo_client,
        empty_fs\<lparr>watch_fault := (\<lambda>dir. if dir = ''/w/a'' then Some ''ENOENT'' else None),
                 lockFiles := [demo_lock \<mapsto> LockRecord 12 1000],
                 clientFiles := [clientFile demo_lock \<mapsto> ClientList [12]],
                 journal := [Wrote demo_lock, Wrote (clientFile demo_lock)]\<rparr>)
   \<and> promotion_ticks 50 (\<lambda>pid. pid = 12)
        (empty_fs\<lparr>watch_fault := (\<lambda>dir. if dir = ''/w/a'' then Some ''ENOENT'' else None),
                 lockFiles := [demo_lock \<mapsto> LockRecord 12 1000],
                 clientFiles := [clientFile demo_lock \<mapsto> ClientList [12]],
                 journal := [Wrote demo_lock, Wrote (clientFile demo_lock)]\<rparr>)
        demo_lock 13 3000
     = (Inr False,
        empty_fs\<lparr>watch_fault := (\<lambda>dir. if dir = ''/w/a'' then Some ''ENOENT'' else None),
                 lockFiles := [demo_lock \<mapsto> LockRecord 12 1000],
                 clientFiles := [clientFile demo_lock \<mapsto> ClientList [12]],
                 journal := [Wrote demo_lock, Wrote (clientFile demo_lock)]\<rparr>)
   \<and> lockFiles (snd (runCommand [''vite''] None (Some ''/w'') [''/w/a'']
        (empty_fs\<lparr>manifest_fault := Some ''EACCES''\<rparr>) 12 1000)) demo_lock
     = Some (LockRecord 12 1000)
   \<and> lockFiles (snd (runCommand [''vite''] None (Some ''/w'') [] empty_fs 12 1000)) demo_lock
     = None"
proof (intro conjI)
  show "runCommand [''vite''] None (Some ''/w'') [''/w/a'']
       (empty_fs\<lparr>watch_fault := (\<lambda>dir. if dir = ''/w/a'' then Some ''ENOENT'' else None)\<rparr>) 12 1000
     = (Inr demo_client,
        empty_fs\<lparr>watch_fault := (\<lambda>dir. if dir = ''/w/a'' then Some ''ENOENT'' else None),
                 lockFiles := [demo_lock \<mapsto> LockRecord 12 1000],
                 clientFiles := [clientFile demo_lock \<mapsto> ClientList [12]],
                 journal := [Wrote demo_lock, Wrote (clientFile demo_lock)]\<rparr>)"
    by (simp add: isSyncDisabled_def runCommand_def acquireLock_def writeFile_wx_def
          startWatcherMode_def getInjectedDepsDirs_def setupWatcher_def syncDeps_def
          registerClient_def readClients_cases writeFile_clients_def Let_def empty_fs_def
          demo_lock_def demo_client_def init_proc_def spawn_child_def)
  show "promotion_ticks 50 (\<lambda>pid. pid = 12)
        (empty_fs\<lparr>watch_fault := (\<lambda>dir. if dir = ''/w/a'' then Some ''ENOENT'' else None),
                 lockFiles := [demo_lock \<mapsto> LockRecord 12 1000],
                 clientFiles := [clientFile demo_lock \<mapsto> ClientList [12]],
                 journal := [Wrote demo_lock, Wrote (clientFile demo_lock)]\<rparr>)
        demo_lock 13 3000
     = (Inr False,
        empty_fs\<lparr>watch_fault := (\<lambda>dir. if dir = ''/w/a'' then Some ''ENOENT'' else None),
                 lockFiles := [demo_lock \<mapsto> LockRecord 12 1000],
                 clientFiles := [clientFile demo_lock \<mapsto> ClientList [12]],
                 journal := [Wrote demo_lock, Wrote (clientFile demo_lock)]\<rparr>)"
    by (rule promotion_ticks_owner_alive [where owner = 12 and t = 1000]) simp_all
  show "lockFiles (snd (runCommand [''vite''] None (Some ''/w'') [''/w/a'']
        (empty_fs\<lparr>manifest_fault := Some ''EACCES''\<rparr>) 12 1000)) demo_lock
     = Some (LockRecord 12 1000)"
    by (simp add: isSyncDisabled_def runCommand_def acquireLock_def writeFile_wx_def
          startWatcherMode_def getInjectedDepsDirs_def registerClient_def readClients_cases
          writeFile_clients_def Let_def empty_fs_def demo_lock_def init_proc_def)
  show "lockFiles (snd (runCommand [''vite''] None (Some ''/w'') [] empty_fs 12 1000)) demo_lock
     = None"
    by (simp add: isSyncDisabled_def runCommand_def acquireLock_def writeFile_wx_def
          startWatcherMode_def getInjectedDepsDirs_def unlink_lock_def registerClient_def
          readClients_cases writeFile_clients_def Let_def empty_fs_def demo_lock_def
          init_proc_def)
qed


lemma deliver_exited:
  "exitCode p \<noteq> None \<Longrightarrow> deliver kill0 env dirs ev (p, fs) = (p, fs)"
  by simp










section \<open>The disable flag and the registry\<close>

lemma spelling_of_Cons:
  "spelling_of (b # w) v \<longleftrightarrow> (\<exists>a u. v = a # u \<and> (a = b \<or> a = upper_char b) \<and> spelling_of w u)"
  by (auto simp: spelling_of_def list_all2_Cons2)

lemma spelling_of_Nil:
  "spelling_of [] v \<longleftrightarrow> v = []"
  by (simp add: spelling_of_def)

text \<open>Every spelling of one of the four words, in any letter case, sets the flag.\<close>

lemma isSyncDisabled_spellings:
  assumes "spelling_of w v" and "w = ''true'' \<or> w = ''1'' \<or> w = ''yes'' \<or> w = ''on''"
  shows "isSyncDisabled (Some v)"
proof -
  have "toLowerCase v = w \<and> v \<noteq> []"
    using assms
    by (elim disjE)
       (auto simp: spelling_of_Cons spelling_of_Nil toLowerCase_def lower_char_def upper_char_def
          char_of_eq_iff)
  then show ?thesis
    using assms(2) by (auto simp: isSyncDisabled_def Let_def)
qed

lemma isSyncDisabled_examples:
  "isSyncDisabled (Some ''TRUE'') \<and> isSyncDisabled (Some ''Yes'') \<and> isSyncDisabled (Some ''1'')
   \<and> isSyncDisabled (Some ''oN'') \<and> \<not> isSyncDisabled (Some ''0'') \<and> \<not> isSyncDisabled (Some '''')
   \<and> \<not> isSyncDisabled None \<and> \<not> isSyncDisabled (Some ''false'')"
  by (simp add: isSyncDisabled_def toLowerCase_def lower_char_def char_of_eq_iff)

text \<open>
  With the flag set, \<^verbatim>\<open>runCommand\<close> itself leaves the files and the journal as they are
  and only spawns the child.
\<close>

lemma runCommand_disabled:
  "isSyncDisabled env \<Longrightarrow>
   runCommand args env (Some ws) dirs fs pid now
     = (Inr (spawn_child args (init_proc pid (ws @ ''/.pnpm-injected-sync.lock''))), fs)"
  by (simp add: runCommand_def Let_def)

text \<open>
  C9. The flag keeps \<^verbatim>\<open>runCommand\<close> from the lock, the registry and the watchers at
  startup only. The exit handler and the signal handler call \<^verbatim>\<open>unregisterClient\<close>
  whether or not syncing is disabled. Here invocation 12 runs with the flag set to
  \<^verbatim>\<open>true\<close> in a workspace whose leader 11 has its lock and its client list \<^verbatim>\<open>[11]\<close> in
  place: startup leaves the files alone and spawns the child, and the child's exit code 0
  is the process's; but on the child's exit, and likewise on a signal, the client file is
  written again, and a client file holding only 12 (left by an earlier process with that
  identifier) is deleted.
\<close>

theorem disabled_run_touches_client_file:
  "isSyncDisabled (Some ''true'')
   \<and> runCommand [''vite''] (Some ''true'') (Some ''/w'') [''/w/a'']
        (empty_fs\<lparr>lockFiles := [demo_lock \<mapsto> LockRecord 11 0],
                 clientFiles := [clientFile demo_lock \<mapsto> ClientList [11]]\<rparr>) 12 1000
       = (Inr ((init_proc 12 demo_lock)\<lparr>child := Some ''vite'', keepAlive := True\<rparr>),
          empty_fs\<lparr>lockFiles := [demo_lock \<mapsto> LockRecord 11 0],
                   clientFiles := [clientFile demo_lock \<mapsto> ClientList [11]]\<rparr>)
   \<and> exitCode (fst (run_events (\<lambda>pid. True) (Some ''true'') [''/w/a''] [ChildExit (Some 0) None]
        ((init_proc 12 demo_lock)\<lparr>child := Some ''vite'', keepAlive := True\<rparr>,
         empty_fs\<lparr>lockFiles := [demo_lock \<mapsto> LockRecord 11 0],
                  clientFiles := [clientFile demo_lock \<mapsto> ClientList [11]]\<rparr>))) = Some 0
   \<and> journal (snd (run_events (\<lambda>pid. True) (Some ''true'') [''/w/a''] [ChildExit (Some 0) None]
        ((init_proc 12 demo_lock)\<lparr>child := Some ''vite'', keepAlive := True\<rparr>,
         empty_fs\<lparr>lockFiles := [demo_lock \<mapsto> LockRecord 11 0],
                  clientFiles := [clientFile demo_lock \<mapsto> ClientList [11]]\<rparr>)))
       = [Wrote (clientFile demo_lock)]
   \<and> journal (snd (run_events (\<lambda>pid. True) (Some ''true'') [''/w/a''] [Signal SIGINT]
        ((init_proc 12 demo_lock)\<lparr>child := Some ''vite'', keepAlive := True\<rparr>,
         empty_fs\<lparr>lockFiles := [demo_lock \<mapsto> LockRecord 11 0],
                  clientFiles := [clientFile demo_lock \<mapsto> ClientList [11]]\<rparr>)))
       = [Wrote (clientFile demo_lock)]
   \<and> snd (run_events (\<lambda>pid. True) (Some ''true'') [''/w/a''] [ChildExit (Some 0) None]
        ((init_proc 12 demo_lock)\<lparr>child := Some ''vite'', keepAlive := True\<rparr>,
         empty_fs\<lparr>clientFiles := [clientFile demo_lock \<mapsto> ClientList [12]]\<rparr>))
       = empty_fs\<lparr>journal := [Unlinked (clientFile demo_lock)]\<rparr>"
  by (simp add: isSyncDisabled_def toLowerCase_def lower_char_def runCommand_def Let_def
        spawn_child_def init_proc_def demo_lock_def empty_fs_def on_child_exit_def on_signal_def
        unregisterClient_def readClients_cases writeFile_clients_def try_unlink_clients_cases
        code_or_0_def)

section \<open>The debounce timers\<close>

text \<open>One key on its own: the first event, an event inside the quiet period, one after it.\<close>

lemma fire_due_none:
  "debounceTimers st = [] \<Longrightarrow> fire_due env now st = st"
  by (simp add: fire_due_def)

lemma fire_due_early:
  "debounceTimers st = [(k, d, p)] \<Longrightarrow> now < d \<Longrightarrow> fire_due env now st = st"
  by (simp add: fire_due_def)

lemma fire_due_late:
  "debounceTimers st = [(k, d, p)] \<Longrightarrow> d \<le> now \<Longrightarrow> \<not> isSyncDisabled env \<Longrightarrow>
   fire_due env now st = st\<lparr>debounceTimers := [], synced := synced st @ [p]\<rparr>"
  by (simp add: fire_due_def syncDeps_def)

lemma watch_run_first:
  assumes "(pkgDir, True) \<in> set (watchers st)" "debounceTimers st = []" "f \<noteq> []"
  shows "watch_run env st ((u, pkgDir, Some f) # es)
     = watch_run env (st\<lparr>debounceTimers := [(timerId pkgDir f, u + 100, pkgDir)]\<rparr>) es"
  using assms by (simp add: fire_due_none on_change_def)

lemma watch_run_reset:
  assumes "(pkgDir, True) \<in> set (watchers st)"
    "debounceTimers st = [(timerId pkgDir f, d, pkgDir)]" "u < d" "f \<noteq> []"
  shows "watch_run env st ((u, pkgDir, Some f) # es)
     = watch_run env (st\<lparr>debounceTimers := [(timerId pkgDir f, u + 100, pkgDir)]\<rparr>) es"
  using assms by (simp add: fire_due_early on_change_def)

lemma watch_run_quiet:
  assumes "(pkgDir, True) \<in> set (watchers st)"
    "debounceTimers st = [(timerId pkgDir f, d, pkgDir)]" "d \<le> u" "f \<noteq> []"
    "\<not> isSyncDisabled env"
  shows "watch_run env st ((u, pkgDir, Some f) # es)
     = watch_run env (st\<lparr>synced := synced st @ [pkgDir],
                         debounceTimers := [(timerId pkgDir f, u + 100, pkgDir)]\<rparr>) es"
  using assms by (simp add: fire_due_late on_change_def)

lemma watch_run_burst:
  assumes "(pkgDir, True) \<in> set (watchers st)"
    "debounceTimers st = [(timerId pkgDir f, t + 100, pkgDir)]" "f \<noteq> []" "burst t ts"
  shows "watch_run env st (map (\<lambda>u. (u, pkgDir, Some f)) ts)
     = st\<lparr>debounceTimers := [(timerId pkgDir f, last (t # ts) + 100, pkgDir)]\<rparr>"
  using assms
proof (induction ts arbitrary: st t)
  case Nil
  then show ?case by simp
next
  case (Cons u us)
  let ?st' = "st\<lparr>debounceTimers := [(timerId pkgDir f, u + 100, pkgDir)]\<rparr>"
  have step: "watch_run env st (map (\<lambda>u. (u, pkgDir, Some f)) (u # us))
      = watch_run env ?st' (map (\<lambda>u. (u, pkgDir, Some f)) us)"
    using Cons.prems by (simp only: list.map) (rule watch_run_reset [where d = "t + 100"], simp_all)
  have "watch_run env ?st' (map (\<lambda>u. (u, pkgDir, Some f)) us)
      = ?st'\<lparr>debounceTimers := [(timerId pkgDir f, last (u # us) + 100, pkgDir)]\<rparr>"
    using Cons.prems by (intro Cons.IH) simp_all
  then show ?case unfolding step by simp
qed

lemma watch_run_spaced:
  assumes "(pkgDir, True) \<in> set (watchers st)"
    "debounceTimers st = [(timerId pkgDir f, t + 100, pkgDir)]" "f \<noteq> []" "spaced t ts"
    "\<not> isSyncDisabled env"
  shows "watch_run env st (map (\<lambda>u. (u, pkgDir, Some f)) ts)
     = st\<lparr>debounceTimers := [(timerId pkgDir f, last (t # ts) + 100, pkgDir)],
          synced := synced st @ replicate (length ts) pkgDir\<rparr>"
  using assms
proof (induction ts arbitrary: st t)
  case Nil
  then show ?case by simp
next
  case (Cons u us)
  let ?st' = "st\<lparr>synced := synced st @ [pkgDir],
                 debounceTimers := [(timerId pkgDir f, u + 100, pkgDir)]\<rparr>"
  have step: "watch_run env st (map (\<lambda>u. (u, pkgDir, Some f)) (u # us))
      = watch_run env ?st' (map (\<lambda>u. (u, pkgDir, Some f)) us)"
    using Cons.prems by (simp only: list.map) (rule watch_run_quiet [where d = "t + 100"], simp_all)
  have "watch_run env ?st' (map (\<lambda>u. (u, pkgDir, Some f)) us)
      = ?st'\<lparr>debounceTimers := [(timerId pkgDir f, last (u # us) + 100, pkgDir)],
             synced := synced ?st' @ replicate (length us) pkgDir\<rparr>"
    using Cons.prems by (intro Cons.IH) simp_all
  then show ?case unfolding step by (simp add: replicate_app_Cons_same)
qed

text \<open>
  A burst of events for one entry of a watched directory, each less than 100 ms after
  the one before, is followed by exactly one synchronization of that directory, once
  100 ms have passed since the last event and not before.
\<close>

lemma debounce_burst:
  assumes "(pkgDir, True) \<in> set (watchers st)" "debounceTimers st = []" "f \<noteq> []"
    "burst t ts" "\<not> isSyncDisabled env"
  shows "synced (watch_until env st (map (\<lambda>u. (u, pkgDir, Some f)) (t # ts)) t_end)
     = (if last (t # ts) + 100 \<le> t_end then synced st @ [pkgDir] else synced st)"
proof -
  let ?st1 = "st\<lparr>debounceTimers := [(timerId pkgDir f, t + 100, pkgDir)]\<rparr>"
  have "watch_run env st (map (\<lambda>u. (u, pkgDir, Some f)) (t # ts))
      = watch_run env ?st1 (map (\<lambda>u. (u, pkgDir, Some f)) ts)"
    using assms by (simp only: list.map) (rule watch_run_first, simp_all)
  also have "\<dots> = ?st1\<lparr>debounceTimers := [(timerId pkgDir f, last (t # ts) + 100, pkgDir)]\<rparr>"
    using assms by (intro watch_run_burst) simp_all
  finally have run: "watch_run env st (map (\<lambda>u. (u, pkgDir, Some f)) (t # ts))
      = st\<lparr>debounceTimers := [(timerId pkgDir f, last (t # ts) + 100, pkgDir)]\<rparr>"
    by simp
  show ?thesis
    unfolding watch_until_def run using assms(5)
    by (simp add: fire_due_def syncDeps_def)
qed

text \<open>
  Events for one entry spaced more than 100 ms apart are followed by one synchronization
  each.
\<close>

lemma debounce_spaced:
  assumes "(pkgDir, True) \<in> set (watchers st)" "debounceTimers st = []" "f \<noteq> []"
    "spaced t ts" "\<not> isSyncDisabled env" "last (t # ts) + 100 \<le> t_end"
  shows "synced (watch_until env st (map (\<lambda>u. (u, pkgDir, Some f)) (t # ts)) t_end)
     = synced st @ replicate (length (t # ts)) pkgDir"
proof -
  let ?st1 = "st\<lparr>debounceTimers := [(timerId pkgDir f, t + 100, pkgDir)]\<rparr>"
  have "watch_run env st (map (\<lambda>u. (u, pkgDir, Some f)) (t # ts))
      = watch_run env ?st1 (map (\<lambda>u. (u, pkgDir, Some f)) ts)"
    using assms by (simp only: list.map) (rule watch_run_first, simp_all)
  also have "\<dots> = ?st1\<lparr>debounceTimers := [(timerId pkgDir f, last (t # ts) + 100, pkgDir)],
                        synced := synced ?st1 @ replicate (length ts) pkgDir\<rparr>"
    using assms by (intro watch_run_spaced) simp_all
  finally have run: "watch_run env st (map (\<lambda>u. (u, pkgDir, Some f)) (t # ts))
      = st\<lparr>debounceTimers := [(timerId pkgDir f, last (t # ts) + 100, pkgDir)],
           synced := synced st @ replicate (length ts) pkgDir\<rparr>"
    by simp
  show ?thesis
    unfolding watch_until_def run using assms(5,6)
    by (simp add: fire_due_def syncDeps_def replicate_app_Cons_same)
qed

text \<open>
  An event whose key is a different text leaves the pending timer of a key as it is.
\<close>

lemma on_change_other_key:
  "timerId pkgDir f \<noteq> k \<Longrightarrow>
   filter (\<lambda>(k', d, p). k' = k) (debounceTimers (on_change now pkgDir (Some f) st))
     = filter (\<lambda>(k', d, p). k' = k) (debounceTimers st)"
  by (auto simp: on_change_def intro: filter_cong)

text \<open>
  C5. The timers are keyed by the text \<^verbatim>\<open>`${pkgDir}:${filename}`\<close>, and two different
  pairs of directory and entry can give the same text: the entry \<^verbatim>\<open>b:c\<close> of the watched
  directory \<^verbatim>\<open>/w/a\<close> and the entry \<^verbatim>\<open>c\<close> of the watched directory \<^verbatim>\<open>/w/a:b\<close>. A change
  of the first at time 0 alone is followed by one synchronization of \<^verbatim>\<open>/w/a\<close>; with a
  change of the second 50 ms later, the second event clears the first one's timer, and
  \<^verbatim>\<open>/w/a\<close> is never synchronized: the only call is for \<^verbatim>\<open>/w/a:b\<close>.
\<close>

theorem debounce_key_collision:
  "timerId ''/w/a'' ''b:c'' = timerId ''/w/a:b'' ''c''
   \<and> synced (watch_until None
        \<lparr>watchers = [(''/w/a'', True), (''/w/a:b'', True)], debounceTimers = [],
         state_clients = [11], state_lockFile = demo_lock, checkInterval = True, synced = []\<rparr>
        [(0, ''/w/a'', Some ''b:c'')] 1000) = [''/w/a'']
   \<and> synced (watch_until None
        \<lparr>watchers = [(''/w/a'', True), (''/w/a:b'', True)], debounceTimers = [],
         state_clients = [11], state_lockFile = demo_lock, checkInterval = True, synced = []\<rparr>
        [(50, ''/w/a:b'', Some ''c'')] 1000) = [''/w/a:b'']
   \<and> synced (watch_until None
        \<lparr>watchers = [(''/w/a'', True), (''/w/a:b'', True)], debounceTimers = [],
         state_clients = [11], state_lockFile = demo_lock, checkInterval = True, synced = []\<rparr>
        [(0, ''/w/a'', Some ''b:c''), (50, ''/w/a:b'', Some ''c'')] 1000) = [''/w/a:b'']"
  by (simp add: timerId_def watch_until_def fire_due_def on_change_def syncDeps_def
        isSyncDisabled_def)

end
